theory Spec2Isabelle
  imports Complex_Main
begin

section \<open>JavaScript strings\<close>

text \<open>
  A JavaScript string is a sequence of UTF-16 code units; a code unit is modelled as an
  integer, so that the Cyrillic constants of the source and the full white-space
  class of \<^verbatim>\<open>String.prototype.trim\<close> and of the regular expression class
  \<^verbatim>\<open>\s\<close> are expressible. ASCII literals are written \<open>str ''...''\<close>.
\<close>

type_synonym jsstring = "int list"

definition str :: "string \<Rightarrow> jsstring" where
  "str s = map of_char s"

definition isWhiteSpace :: "int \<Rightarrow> bool" where
  "isWhiteSpace c =
     (c = 9 \<or> c = 10 \<or> c = 11 \<or> c = 12 \<or> c = 13 \<or> c = 32 \<or> c = 160 \<or> c = 5760
      \<or> (8192 \<le> c \<and> c \<le> 8202) \<or> c = 8232 \<or> c = 8233 \<or> c = 8239 \<or> c = 8287
      \<or> c = 12288 \<or> c = 65279)"

definition isLineTerminator :: "int \<Rightarrow> bool" where
  "isLineTerminator c = (c = 10 \<or> c = 13 \<or> c = 8232 \<or> c = 8233)"

definition isWordChar :: "int \<Rightarrow> bool" where
  "isWordChar c =
     ((48 \<le> c \<and> c \<le> 57) \<or> (65 \<le> c \<and> c \<le> 90) \<or> c = 95 \<or> (97 \<le> c \<and> c \<le> 122))"

definition trim :: "jsstring \<Rightarrow> jsstring" where
  "trim s = rev (dropWhile isWhiteSpace (rev (dropWhile isWhiteSpace s)))"

definition startsWith :: "jsstring \<Rightarrow> jsstring \<Rightarrow> bool" where
  "startsWith s p = (take (length p) s = p)"

definition endsWith :: "jsstring \<Rightarrow> jsstring \<Rightarrow> bool" where
  "endsWith s p = (length p \<le> length s \<and> drop (length s - length p) s = p)"

text \<open>\<^verbatim>\<open>s.replace(new RegExp(pat, "g"), rep)\<close> for a pattern and a replacement without
  special characters: the occurrences are found from left to right and do not overlap.\<close>

function replaceAllLit :: "jsstring \<Rightarrow> jsstring \<Rightarrow> jsstring \<Rightarrow> jsstring" where
  "replaceAllLit pat rep [] = []"
| "replaceAllLit pat rep (c # cs) =
     (if pat \<noteq> [] \<and> startsWith (c # cs) pat
      then rep @ replaceAllLit pat rep (drop (length pat) (c # cs))
      else c # replaceAllLit pat rep cs)"
  by pat_completeness auto
termination
  by (relation "measure (\<lambda>(pat, rep, s). length s)") (auto simp: neq_Nil_conv)

section \<open>DataFormatter\<close>

definition MAX_ARRAY_ITEMS :: nat where
  "MAX_ARRAY_ITEMS = 15"

definition MAX_FACTS_COUNT :: nat where
  "MAX_FACTS_COUNT = 5"

datatype FormatType = SHORT_VALUE | LONG_TEXT | URL | LINK

text \<open>\<^verbatim>\<open>cleanTextForMetadata\<close>: the empty string is falsy; otherwise every colon is
  removed and the result trimmed.\<close>

definition cleanTextForMetadata :: "jsstring \<Rightarrow> jsstring" where
  "cleanTextForMetadata text = (if text = [] then [] else trim (filter (\<lambda>c. c \<noteq> 58) text))"

text \<open>\<^verbatim>\<open>.replace(/\s+/g, " ")\<close>: every maximal run of white space becomes one space.\<close>

function collapseWhiteSpace :: "jsstring \<Rightarrow> jsstring" where
  "collapseWhiteSpace [] = []"
| "collapseWhiteSpace (c # cs) =
     (if isWhiteSpace c then 32 # collapseWhiteSpace (dropWhile isWhiteSpace cs)
      else c # collapseWhiteSpace cs)"
  by pat_completeness auto
termination
  by (relation "measure length") (auto simp: less_Suc_eq_le length_dropWhile_le)

definition cleanLongText :: "jsstring \<Rightarrow> jsstring" where
  "cleanLongText item =
     trim (collapseWhiteSpace (map (\<lambda>c. if c = 10 then 32 else c) item))"

text \<open>The filter callback of \<^verbatim>\<open>formatArray\<close>, \<^verbatim>\<open>item && item.trim() !== ""\<close>:
  an entry that is \<^verbatim>\<open>null\<close> or \<^verbatim>\<open>undefined\<close> is \<open>None\<close>.\<close>

definition keepItem :: "jsstring option \<Rightarrow> bool" where
  "keepItem item = (case item of None \<Rightarrow> False | Some s \<Rightarrow> s \<noteq> [] \<and> trim s \<noteq> [])"

definition formatItem :: "FormatType \<Rightarrow> jsstring \<Rightarrow> jsstring" where
  "formatItem formatType item =
     (case formatType of
        SHORT_VALUE \<Rightarrow> cleanTextForMetadata item
      | LONG_TEXT \<Rightarrow> str ''\"'' @ cleanLongText item @ str ''\"''
      | URL \<Rightarrow> trim item
      | LINK \<Rightarrow> str ''\"[['' @ cleanTextForMetadata item @ str '']]\"'')"

definition formatArray :: "jsstring option list \<Rightarrow> FormatType \<Rightarrow> nat \<Rightarrow> jsstring list" where
  "formatArray items formatType maxItems =
     map (formatItem formatType) (map the (take maxItems (filter keepItem items)))"

subsection \<open>Facts\<close>

text \<open>\<^verbatim>\<open>.replace(/<[^>]*>/g, "")\<close>: a \<^verbatim>\<open><\<close> with a later \<^verbatim>\<open>>\<close> is removed up to
  the first such \<^verbatim>\<open>>\<close>; a \<^verbatim>\<open><\<close> with none after it stays.\<close>

lemma length_tl_dropWhile_le: "length (tl (dropWhile P cs)) \<le> length cs"
proof -
  have "length (tl (dropWhile P cs)) \<le> length (dropWhile P cs)"
    by simp
  also have "\<dots> \<le> length cs"
    by (rule length_dropWhile_le)
  finally show ?thesis .
qed

function removeTags :: "jsstring \<Rightarrow> jsstring" where
  "removeTags [] = []"
| "removeTags (c # cs) =
     (if c = 60 \<and> 62 \<in> set cs then removeTags (tl (dropWhile (\<lambda>d. d \<noteq> 62) cs))
      else c # removeTags cs)"
  by pat_completeness auto
termination
  by (relation "measure length")
     (auto simp: less_Suc_eq_le length_tl_dropWhile_le simp del: length_tl)

text \<open>\<^verbatim>\<open>.replace(/&#?\w+;/g, "")\<close>: an ampersand, an optional \<^verbatim>\<open>#\<close>, the maximal run of
  word characters (at least one) and a semicolon.\<close>

definition entityRest :: "jsstring \<Rightarrow> jsstring option" where
  "entityRest cs =
     (let r = (case cs of [] \<Rightarrow> [] | d # ds \<Rightarrow> if d = 35 then ds else cs);
          w = takeWhile isWordChar r;
          r' = dropWhile isWordChar r
      in if w \<noteq> [] \<and> r' \<noteq> [] \<and> hd r' = 59 then Some (tl r') else None)"

lemma length_entityRest: "entityRest cs = Some r \<Longrightarrow> length r \<le> length cs"
proof -
  assume a: "entityRest cs = Some r"
  define q where "q = (case cs of [] \<Rightarrow> [] | d # ds \<Rightarrow> if d = 35 then ds else cs)"
  have q: "length q \<le> length cs"
    by (simp add: q_def split: list.splits)
  from a have "r = tl (dropWhile isWordChar q)"
    by (simp add: entityRest_def q_def Let_def split: if_splits)
  then have "length r \<le> length (dropWhile isWordChar q)"
    by simp
  also have "\<dots> \<le> length q"
    by (rule length_dropWhile_le)
  finally show ?thesis using q by simp
qed

function removeEntities :: "jsstring \<Rightarrow> jsstring" where
  "removeEntities [] = []"
| "removeEntities (c # cs) =
     (if c = 38 then
        (case entityRest cs of
           Some r \<Rightarrow> removeEntities r
         | None \<Rightarrow> c # removeEntities cs)
      else c # removeEntities cs)"
  by pat_completeness auto
termination
  by (relation "measure length") (auto simp: less_Suc_eq_le dest: length_entityRest)

text \<open>The table \<^verbatim>\<open>HTML_ENTITIES\<close>, in the order of its entries.\<close>

definition HTML_ENTITIES :: "(jsstring \<times> jsstring) list" where
  "HTML_ENTITIES =
     [(str ''&laquo;'', [171]), (str ''&raquo;'', [187]),
      (str ''&ldquo;'', [34]), (str ''&rdquo;'', [34]),
      (str ''&lsquo;'', [39]), (str ''&rsquo;'', [39]),
      (str ''&quot;'', [34]), (str ''&amp;'', [38]),
      (str ''&lt;'', [60]), (str ''&gt;'', [62]),
      (str ''&nbsp;'', [32]), (str ''&ndash;'', [8211]),
      (str ''&mdash;'', [8212]), (str ''&hellip;'', [8230])]"

definition stripHtmlTags :: "jsstring \<Rightarrow> jsstring" where
  "stripHtmlTags text =
     trim (removeEntities
       (foldl (\<lambda>cleanText (entity, char). replaceAllLit entity char cleanText)
          (removeTags text) HTML_ENTITIES))"

record KinopoiskFact =
  "value" :: jsstring
  type :: jsstring
  spoiler :: "bool option"

definition processFacts :: "KinopoiskFact list \<Rightarrow> jsstring list" where
  "processFacts facts =
     map (\<lambda>fact. stripHtmlTags (value fact))
       (take MAX_FACTS_COUNT
          (filter (\<lambda>fact. spoiler fact \<noteq> Some True \<and> value fact \<noteq> [] \<and> trim (value fact) \<noteq> [])
             facts))"

subsection \<open>The platform\<close>

text \<open>
  Functions of the JavaScript run time that the source calls and that are not part of the
  repository are parameters of the model: \<^verbatim>\<open>String(n)\<close> for a number,
  \<^verbatim>\<open>String.prototype.toUpperCase\<close>, \<^verbatim>\<open>Date.parse\<close> (\<open>None\<close> is the time value
  \<^verbatim>\<open>NaN\<close>, otherwise milliseconds since the epoch) and the offset of local time from
  UTC at a time value, in milliseconds. Numbers are real numbers: the values
  \<^verbatim>\<open>NaN\<close> and the infinities do not occur in the JSON the records are read from.
\<close>

record Platform =
  numberToString :: "real \<Rightarrow> jsstring"
  toUpperCase :: "jsstring \<Rightarrow> jsstring"
  dateParse :: "jsstring \<Rightarrow> int option"
  localTZA :: "int \<Rightarrow> int"

subsection \<open>Dates\<close>

fun digits :: "nat \<Rightarrow> jsstring" where
  "digits n = (if n < 10 then [48 + int n] else digits (n div 10) @ [48 + int (n mod 10)])"

declare digits.simps [simp del]

definition padStart :: "nat \<Rightarrow> jsstring \<Rightarrow> jsstring" where
  "padStart k s = replicate (k - length s) 48 @ s"

text \<open>Year, month and day of a day number counted from 1 January 1970 in the proleptic
  Gregorian calendar, which is the calendar of \<^verbatim>\<open>Date\<close>.\<close>

definition civilFromDays :: "int \<Rightarrow> int \<times> int \<times> int" where
  "civilFromDays z0 =
     (let z = z0 + 719468;
          era = z div 146097;
          doe = z - era * 146097;
          yoe = (doe - doe div 1460 + doe div 36524 - doe div 146096) div 365;
          doy = doe - (365 * yoe + yoe div 4 - yoe div 100);
          mp = (5 * doy + 2) div 153;
          d = doy - (153 * mp + 2) div 5 + 1;
          m = (if mp < 10 then mp + 3 else mp - 9);
          y = yoe + era * 400 + (if m \<le> 2 then 1 else 0)
      in (y, m, d))"

definition msPerDay :: int where
  "msPerDay = 86400000"

definition yearFromTime :: "int \<Rightarrow> int" where
  "yearFromTime t = fst (civilFromDays (t div msPerDay))"

text \<open>\<^verbatim>\<open>getFullYear\<close> reads the year in local time.\<close>

definition getFullYear :: "Platform \<Rightarrow> int \<Rightarrow> int" where
  "getFullYear pf t = yearFromTime (t + localTZA pf t)"

text \<open>The part of \<^verbatim>\<open>toISOString()\<close> before the \<^verbatim>\<open>T\<close>, in UTC; a year outside
  0..9999 is written with a sign and six digits.\<close>

definition isoYear :: "int \<Rightarrow> jsstring" where
  "isoYear y =
     (if 0 \<le> y \<and> y \<le> 9999 then padStart 4 (digits (nat y))
      else (if y < 0 then str ''-'' else str ''+'') @ padStart 6 (digits (nat \<bar>y\<bar>)))"

definition isoDatePart :: "int \<Rightarrow> jsstring" where
  "isoDatePart t =
     (case civilFromDays (t div msPerDay) of
        (y, m, d) \<Rightarrow>
          isoYear y @ str ''-'' @ padStart 2 (digits (nat m)) @ str ''-''
            @ padStart 2 (digits (nat d)))"

definition formatDate :: "Platform \<Rightarrow> jsstring option \<Rightarrow> jsstring" where
  "formatDate pf dateString =
     (case dateString of
        None \<Rightarrow> []
      | Some s \<Rightarrow>
          if s = [] then []
          else (case dateParse pf s of
                  None \<Rightarrow> []
                | Some t \<Rightarrow>
                    if getFullYear pf t < 1800 \<or> getFullYear pf t > 2100 then []
                    else isoDatePart t))"

subsection \<open>Helpers of the normalizer\<close>

definition capitalizeFirstLetter :: "Platform \<Rightarrow> jsstring \<Rightarrow> jsstring" where
  "capitalizeFirstLetter pf input =
     (case input of [] \<Rightarrow> [] | c # cs \<Rightarrow> toUpperCase pf [c] @ cs)"

text \<open>\<^verbatim>\<open>createImageLink\<close> of the class \<^verbatim>\<open>DataFormatter\<close>.\<close>

definition createImageLink :: "jsstring \<Rightarrow> jsstring list" where
  "createImageLink imagePath =
     (if imagePath = [] \<or> trim imagePath = [] then []
      else if \<not> startsWith imagePath (str ''http'') then [str ''![['' @ imagePath @ str '']]'']
      else [str ''![]('' @ imagePath @ str '')''])"

text \<open>
  \<^verbatim>\<open>TYPE_TRANSLATIONS[type] || type\<close>. The table is an object literal, so a key that
  names a property inherited from \<^verbatim>\<open>Object.prototype\<close> reads that property: a function
  or an object, which is truthy and not a string. That result is \<open>None\<close> here.
\<close>

definition TYPE_TRANSLATIONS :: "(jsstring \<times> jsstring) list" where
  "TYPE_TRANSLATIONS =
     [(str ''animated-series'',
         [1040, 1085, 1080, 1084, 1072, 1094, 1080, 1086, 1085, 1085, 1099, 1081, 32,
          1089, 1077, 1088, 1080, 1072, 1083]),
      (str ''anime'', [1040, 1085, 1080, 1084, 1077]),
      (str ''cartoon'', [1052, 1091, 1083, 1100, 1090, 1092, 1080, 1083, 1100, 1084]),
      (str ''movie'', [1060, 1080, 1083, 1100, 1084]),
      (str ''tv-series'', [1057, 1077, 1088, 1080, 1072, 1083])]"

definition OBJECT_PROTOTYPE_KEYS :: "jsstring list" where
  "OBJECT_PROTOTYPE_KEYS =
     [str ''constructor'', str ''__defineGetter__'', str ''__defineSetter__'',
      str ''hasOwnProperty'', str ''__lookupGetter__'', str ''__lookupSetter__'',
      str ''isPrototypeOf'', str ''propertyIsEnumerable'', str ''toString'',
      str ''valueOf'', str ''__proto__'', str ''toLocaleString'']"

definition translateType :: "jsstring \<Rightarrow> jsstring option" where
  "translateType ty =
     (case map_of TYPE_TRANSLATIONS ty of
        Some label \<Rightarrow> Some label
      | None \<Rightarrow> if ty \<in> set OBJECT_PROTOTYPE_KEYS then None else Some ty)"

record KinopoiskSeasonInfo =
  number :: real
  episodesCount :: real

record SeasonsData =
  count :: real
  averageEpisodesPerSeason :: real

definition calculateSeasonsData :: "KinopoiskSeasonInfo list option \<Rightarrow> SeasonsData" where
  "calculateSeasonsData seasonsInfo =
     (case seasonsInfo of
        None \<Rightarrow> \<lparr>count = 0, averageEpisodesPerSeason = 0\<rparr>
      | Some ss \<Rightarrow>
          if ss = [] then \<lparr>count = 0, averageEpisodesPerSeason = 0\<rparr>
          else \<lparr>count = of_nat (length ss),
                averageEpisodesPerSeason =
                  of_int \<lceil>foldl (\<lambda>total season. total + episodesCount season) 0 ss
                           / of_nat (length ss)\<rceil>\<rparr>)"

record KinopoiskPerson =
  id :: "real option"
  name :: jsstring
  enName :: "jsstring option"
  description :: "jsstring option"
  profession :: "jsstring option"
  enProfession :: jsstring
  photo :: "jsstring option"

record People =
  directors :: "jsstring list"
  actors :: "jsstring list"
  writers :: "jsstring list"
  producers :: "jsstring list"

definition addPerson :: "People \<Rightarrow> KinopoiskPerson \<Rightarrow> People" where
  "addPerson result person =
     (if KinopoiskPerson.name person = [] \<or> enProfession person = [] then result
      else if enProfession person = str ''director''
        then result\<lparr>directors := directors result @ [KinopoiskPerson.name person]\<rparr>
      else if enProfession person = str ''actor''
        then result\<lparr>actors := actors result @ [KinopoiskPerson.name person]\<rparr>
      else if enProfession person = str ''writer''
        then result\<lparr>writers := writers result @ [KinopoiskPerson.name person]\<rparr>
      else if enProfession person = str ''producer''
        then result\<lparr>producers := producers result @ [KinopoiskPerson.name person]\<rparr>
      else result)"

definition extractPeople :: "KinopoiskPerson list \<Rightarrow> People" where
  "extractPeople persons =
     foldl addPerson \<lparr>directors = [], actors = [], writers = [], producers = []\<rparr> persons"

text \<open>A person counts for a profession when the name is not empty and the tag is that
  profession.\<close>

definition hasProfession :: "jsstring \<Rightarrow> KinopoiskPerson \<Rightarrow> bool" where
  "hasProfession tag person = (KinopoiskPerson.name person \<noteq> [] \<and> enProfession person = tag)"

subsection \<open>The raw catalog record\<close>

text \<open>An optional property is an \<open>option\<close>; \<open>None\<close> is an absent property (or
  \<^verbatim>\<open>null\<close>).\<close>

record KinopoiskImageUrl =
  url :: "jsstring option"
  previewUrl :: "jsstring option"

record KinopoiskSimpleItem =
  name :: jsstring

record KinopoiskRatings =
  kp :: "real option"
  imdb :: "real option"
  filmCritics :: "real option"
  russianFilmCritics :: "real option"
  await :: "real option"

record KinopoiskExternalIds =
  imdb :: "jsstring option"
  tmdb :: "real option"
  kpHD :: "jsstring option"

record KinopoiskMoney =
  "value" :: "real option"
  currency :: "jsstring option"

record KinopoiskFees =
  world :: "KinopoiskMoney option"
  russia :: "KinopoiskMoney option"
  usa :: "KinopoiskMoney option"

record KinopoiskPremiere =
  world :: "jsstring option"
  russia :: "jsstring option"
  digital :: "jsstring option"
  cinema :: "jsstring option"

record KinopoiskVotes =
  kp :: "real option"
  imdb :: "real option"
  filmCritics :: "real option"
  russianFilmCritics :: "real option"
  await :: "real option"

record KinopoiskReleaseYear =
  start :: "real option"
  end' :: "real option"

record KinopoiskName =
  name :: jsstring
  language :: "jsstring option"
  type :: "jsstring option"

record KinopoiskNetworks =
  items :: "KinopoiskSimpleItem list option"

record KinopoiskRelatedMovie =
  id :: real
  name :: jsstring
  alternativeName :: "jsstring option"
  enName :: "jsstring option"
  type :: jsstring
  poster :: "KinopoiskImageUrl option"
  rating :: "KinopoiskRatings option"
  year :: "real option"

record KinopoiskProductionCompany =
  name :: jsstring
  url :: "jsstring option"
  previewUrl :: "jsstring option"

record KinopoiskDistributors =
  distributor :: "jsstring option"
  distributorRelease :: "jsstring option"

record KinopoiskFullInfo =
  id :: real
  name :: jsstring
  alternativeName :: jsstring
  type :: jsstring
  year :: real
  description :: "jsstring option"
  poster :: "KinopoiskImageUrl option"
  genres :: "KinopoiskSimpleItem list"
  countries :: "KinopoiskSimpleItem list"
  persons :: "KinopoiskPerson list"
  movieLength :: "real option"
  backdrop :: "KinopoiskImageUrl option"
  logo :: "KinopoiskImageUrl option"
  isSeries :: bool
  seriesLength :: "real option"
  status :: "jsstring option"
  rating :: "KinopoiskRatings option"
  externalId :: "KinopoiskExternalIds option"
  seasonsInfo :: "KinopoiskSeasonInfo list option"
  slogan :: "jsstring option"
  budget :: "KinopoiskMoney option"
  fees :: "KinopoiskFees option"
  premiere :: "KinopoiskPremiere option"
  votes :: "KinopoiskVotes option"
  facts :: "KinopoiskFact list option"
  shortDescription :: "jsstring option"
  ageRating :: "real option"
  ratingMpaa :: "jsstring option"
  releaseYears :: "KinopoiskReleaseYear list option"
  top10 :: "real option"
  top250 :: "real option"
  totalSeriesLength :: "real option"
  typeNumber :: "real option"
  enName :: "jsstring option"
  names :: "KinopoiskName list option"
  networks :: "KinopoiskNetworks option"
  subType :: "jsstring option"
  sequelsAndPrequels :: "KinopoiskRelatedMovie list option"
  productionCompanies :: "KinopoiskProductionCompany list option"
  distributors :: "KinopoiskDistributors option"

subsection \<open>Helpers on the raw record\<close>

text \<open>\<^verbatim>\<open>x || ""\<close> and \<^verbatim>\<open>x || 0\<close> for an optional property.\<close>

definition orEmpty :: "jsstring option \<Rightarrow> jsstring" where
  "orEmpty x = (case x of None \<Rightarrow> [] | Some s \<Rightarrow> s)"

definition orZero :: "real option \<Rightarrow> real" where
  "orZero x = (case x of None \<Rightarrow> 0 | Some n \<Rightarrow> n)"

definition nonBlank :: "jsstring \<Rightarrow> bool" where
  "nonBlank s = (s \<noteq> [] \<and> trim s \<noteq> [])"

record Companies =
  networks :: "jsstring list"
  productionCompanies :: "jsstring list"
  sequelsAndPrequels :: "jsstring list"

definition extractCompanies :: "KinopoiskFullInfo \<Rightarrow> Companies" where
  "extractCompanies fullInfo =
     \<lparr>networks =
        (case Option.bind (KinopoiskFullInfo.networks fullInfo) items of
           None \<Rightarrow> []
         | Some ns \<Rightarrow> filter nonBlank (map KinopoiskSimpleItem.name ns)),
      productionCompanies =
        (case KinopoiskFullInfo.productionCompanies fullInfo of
           None \<Rightarrow> []
         | Some cs \<Rightarrow> filter nonBlank (map KinopoiskProductionCompany.name cs)),
      sequelsAndPrequels =
        (case KinopoiskFullInfo.sequelsAndPrequels fullInfo of
           None \<Rightarrow> []
         | Some ms \<Rightarrow> filter nonBlank (map KinopoiskRelatedMovie.name ms))\<rparr>"

definition processNames :: "KinopoiskFullInfo \<Rightarrow> jsstring list" where
  "processNames fullInfo =
     (case names fullInfo of
        None \<Rightarrow> []
      | Some ns \<Rightarrow> filter nonBlank (map KinopoiskName.name ns))"

subsection \<open>The normalized record\<close>

text \<open>The fields are in the order of the object literal of \<^verbatim>\<open>createMovieShowFrom\<close>,
  which is the order in which \<^verbatim>\<open>Object.entries\<close> enumerates them.\<close>

record MovieShow =
  id :: real
  name :: "jsstring list"
  alternativeName :: "jsstring list"
  year :: real
  description :: "jsstring list"
  shortDescription :: "jsstring list"
  nameForFile :: jsstring
  alternativeNameForFile :: jsstring
  enNameForFile :: jsstring
  posterUrl :: "jsstring list"
  coverUrl :: "jsstring list"
  logoUrl :: "jsstring list"
  posterImageLink :: "jsstring list"
  coverImageLink :: "jsstring list"
  logoImageLink :: "jsstring list"
  genres :: "jsstring list"
  genresLinks :: "jsstring list"
  countries :: "jsstring list"
  countriesLinks :: "jsstring list"
  type :: "jsstring list"
  subType :: "jsstring list"
  director :: "jsstring list"
  directorsLinks :: "jsstring list"
  actors :: "jsstring list"
  actorsLinks :: "jsstring list"
  writers :: "jsstring list"
  writersLinks :: "jsstring list"
  producers :: "jsstring list"
  producersLinks :: "jsstring list"
  movieLength :: real
  isSeries :: bool
  seriesLength :: real
  totalSeriesLength :: real
  isComplete :: bool
  seasonsCount :: real
  seriesInSeasonCount :: real
  ratingKp :: real
  ratingImdb :: real
  ratingFilmCritics :: real
  ratingRussianFilmCritics :: real
  votesKp :: real
  votesImdb :: real
  votesFilmCritics :: real
  votesRussianFilmCritics :: real
  kinopoiskUrl :: "jsstring list"
  imdbId :: "jsstring list"
  tmdbId :: real
  kpHDId :: "jsstring list"
  slogan :: "jsstring list"
  ageRating :: real
  ratingMpaa :: "jsstring list"
  budgetValue :: real
  budgetCurrency :: "jsstring list"
  feesWorldValue :: real
  feesWorldCurrency :: "jsstring list"
  feesRussiaValue :: real
  feesRussiaCurrency :: "jsstring list"
  feesUsaValue :: real
  feesUsaCurrency :: "jsstring list"
  premiereWorld :: "jsstring list"
  premiereRussia :: "jsstring list"
  premiereDigital :: "jsstring list"
  premiereCinema :: "jsstring list"
  releaseYearsStart :: real
  releaseYearsEnd :: real
  top10 :: real
  top250 :: real
  facts :: "jsstring list"
  allNamesString :: "jsstring list"
  enName :: "jsstring list"
  networks :: "jsstring list"
  networksLinks :: "jsstring list"
  productionCompanies :: "jsstring list"
  productionCompaniesLinks :: "jsstring list"
  distributor :: "jsstring list"
  distributorRelease :: "jsstring list"
  sequelsAndPrequels :: "jsstring list"
  sequelsAndPrequelsLinks :: "jsstring list"

subsection \<open>createMovieShowFrom\<close>

datatype jsError = TypeError

definition one :: "FormatType \<Rightarrow> jsstring \<Rightarrow> jsstring list" where
  "one formatType item = formatArray [Some item] formatType MAX_ARRAY_ITEMS"

definition many :: "FormatType \<Rightarrow> jsstring list \<Rightarrow> jsstring list" where
  "many formatType xs = formatArray (map Some xs) formatType MAX_ARRAY_ITEMS"

text \<open>
  \<open>one\<close> and \<open>many\<close> abbreviate the calls of \<^verbatim>\<open>formatArray\<close> on a one-element array
  literal and on an array of strings, with the default \<^verbatim>\<open>maxItems\<close>. When the type
  label is not a string, the filter callback of \<^verbatim>\<open>formatArray\<close> calls
  \<^verbatim>\<open>item.trim\<close>, which is \<^verbatim>\<open>undefined\<close>, and the \<^verbatim>\<open>TypeError\<close> leaves
  \<^verbatim>\<open>createMovieShowFrom\<close>, which catches nothing.
\<close>

definition createMovieShowFrom :: "Platform \<Rightarrow> KinopoiskFullInfo \<Rightarrow> jsError + MovieShow" where
  "createMovieShowFrom pf fullInfo =
     (let seasonsData = calculateSeasonsData (seasonsInfo fullInfo);
          people = extractPeople (persons fullInfo);
          companies = extractCompanies fullInfo;
          facts' = processFacts (case KinopoiskFullInfo.facts fullInfo of None \<Rightarrow> [] | Some fs \<Rightarrow> fs);
          allNames = processNames fullInfo;
          firstReleaseYear =
            (case releaseYears fullInfo of None \<Rightarrow> None | Some [] \<Rightarrow> None | Some (r # rs) \<Rightarrow> Some r);
          genreNames =
            map (\<lambda>g. capitalizeFirstLetter pf (KinopoiskSimpleItem.name g))
              (KinopoiskFullInfo.genres fullInfo);
          countryNames = map KinopoiskSimpleItem.name (KinopoiskFullInfo.countries fullInfo)
      in case translateType (KinopoiskFullInfo.type fullInfo) of
           None \<Rightarrow> Inl TypeError
         | Some typeLabel \<Rightarrow> Inr
      \<lparr>MovieShow.id = KinopoiskFullInfo.id fullInfo,
       name = one SHORT_VALUE (KinopoiskFullInfo.name fullInfo),
       alternativeName = one SHORT_VALUE (KinopoiskFullInfo.alternativeName fullInfo),
       year = KinopoiskFullInfo.year fullInfo,
       description = one LONG_TEXT (orEmpty (KinopoiskFullInfo.description fullInfo)),
       shortDescription = one LONG_TEXT (orEmpty (KinopoiskFullInfo.shortDescription fullInfo)),
       nameForFile = cleanTextForMetadata (KinopoiskFullInfo.name fullInfo),
       alternativeNameForFile = cleanTextForMetadata (KinopoiskFullInfo.alternativeName fullInfo),
       enNameForFile = cleanTextForMetadata (orEmpty (KinopoiskFullInfo.enName fullInfo)),
       posterUrl = one URL (orEmpty (Option.bind (poster fullInfo) KinopoiskImageUrl.url)),
       coverUrl = one URL (orEmpty (Option.bind (backdrop fullInfo) KinopoiskImageUrl.url)),
       logoUrl = one URL (orEmpty (Option.bind (logo fullInfo) KinopoiskImageUrl.url)),
       posterImageLink =
         createImageLink (orEmpty (Option.bind (poster fullInfo) KinopoiskImageUrl.url)),
       coverImageLink =
         createImageLink (orEmpty (Option.bind (backdrop fullInfo) KinopoiskImageUrl.url)),
       logoImageLink =
         createImageLink (orEmpty (Option.bind (logo fullInfo) KinopoiskImageUrl.url)),
       genres = many SHORT_VALUE genreNames,
       genresLinks = many LINK genreNames,
       countries = many SHORT_VALUE countryNames,
       countriesLinks = many LINK countryNames,
       type = one SHORT_VALUE typeLabel,
       subType = one SHORT_VALUE (orEmpty (KinopoiskFullInfo.subType fullInfo)),
       director = many SHORT_VALUE (directors people),
       directorsLinks = many LINK (directors people),
       actors = many SHORT_VALUE (People.actors people),
       actorsLinks = many LINK (People.actors people),
       writers = many SHORT_VALUE (People.writers people),
       writersLinks = many LINK (People.writers people),
       producers = many SHORT_VALUE (People.producers people),
       producersLinks = many LINK (People.producers people),
       movieLength = orZero (KinopoiskFullInfo.movieLength fullInfo),
       isSeries = KinopoiskFullInfo.isSeries fullInfo,
       seriesLength = orZero (KinopoiskFullInfo.seriesLength fullInfo),
       totalSeriesLength = orZero (KinopoiskFullInfo.totalSeriesLength fullInfo),
       isComplete = (orEmpty (status fullInfo) = str ''completed''),
       seasonsCount = count seasonsData,
       seriesInSeasonCount = averageEpisodesPerSeason seasonsData,
       ratingKp = orZero (Option.bind (KinopoiskFullInfo.rating fullInfo) KinopoiskRatings.kp),
       ratingImdb = orZero (Option.bind (KinopoiskFullInfo.rating fullInfo) KinopoiskRatings.imdb),
       ratingFilmCritics =
         orZero (Option.bind (KinopoiskFullInfo.rating fullInfo) KinopoiskRatings.filmCritics),
       ratingRussianFilmCritics =
         orZero (Option.bind (KinopoiskFullInfo.rating fullInfo) KinopoiskRatings.russianFilmCritics),
       votesKp = orZero (Option.bind (votes fullInfo) KinopoiskVotes.kp),
       votesImdb = orZero (Option.bind (votes fullInfo) KinopoiskVotes.imdb),
       votesFilmCritics = orZero (Option.bind (votes fullInfo) KinopoiskVotes.filmCritics),
       votesRussianFilmCritics =
         orZero (Option.bind (votes fullInfo) KinopoiskVotes.russianFilmCritics),
       kinopoiskUrl =
         one URL (str ''https://www.kinopoisk.ru/film/''
                    @ numberToString pf (KinopoiskFullInfo.id fullInfo) @ str ''/''),
       imdbId = one SHORT_VALUE (orEmpty (Option.bind (externalId fullInfo) KinopoiskExternalIds.imdb)),
       tmdbId = orZero (Option.bind (externalId fullInfo) tmdb),
       kpHDId = one SHORT_VALUE (orEmpty (Option.bind (externalId fullInfo) kpHD)),
       slogan = one LONG_TEXT (orEmpty (KinopoiskFullInfo.slogan fullInfo)),
       ageRating = orZero (KinopoiskFullInfo.ageRating fullInfo),
       ratingMpaa = one SHORT_VALUE (orEmpty (KinopoiskFullInfo.ratingMpaa fullInfo)),
       budgetValue = orZero (Option.bind (budget fullInfo) KinopoiskMoney.value),
       budgetCurrency = one SHORT_VALUE (orEmpty (Option.bind (budget fullInfo) currency)),
       feesWorldValue =
         orZero (Option.bind (Option.bind (fees fullInfo) KinopoiskFees.world) KinopoiskMoney.value),
       feesWorldCurrency =
         one SHORT_VALUE (orEmpty (Option.bind (Option.bind (fees fullInfo) KinopoiskFees.world) currency)),
       feesRussiaValue =
         orZero (Option.bind (Option.bind (fees fullInfo) KinopoiskFees.russia) KinopoiskMoney.value),
       feesRussiaCurrency =
         one SHORT_VALUE (orEmpty (Option.bind (Option.bind (fees fullInfo) KinopoiskFees.russia) currency)),
       feesUsaValue =
         orZero (Option.bind (Option.bind (fees fullInfo) usa) KinopoiskMoney.value),
       feesUsaCurrency =
         one SHORT_VALUE (orEmpty (Option.bind (Option.bind (fees fullInfo) usa) currency)),
       premiereWorld =
         one SHORT_VALUE (formatDate pf (Option.bind (premiere fullInfo) KinopoiskPremiere.world)),
       premiereRussia =
         one SHORT_VALUE (formatDate pf (Option.bind (premiere fullInfo) KinopoiskPremiere.russia)),
       premiereDigital =
         one SHORT_VALUE (formatDate pf (Option.bind (premiere fullInfo) digital)),
       premiereCinema =
         one SHORT_VALUE (formatDate pf (Option.bind (premiere fullInfo) cinema)),
       releaseYearsStart = orZero (Option.bind firstReleaseYear start),
       releaseYearsEnd = orZero (Option.bind firstReleaseYear end'),
       top10 = orZero (KinopoiskFullInfo.top10 fullInfo),
       top250 = orZero (KinopoiskFullInfo.top250 fullInfo),
       facts = many LONG_TEXT facts',
       allNamesString = many SHORT_VALUE allNames,
       enName = one SHORT_VALUE (orEmpty (KinopoiskFullInfo.enName fullInfo)),
       networks = many SHORT_VALUE (Companies.networks companies),
       networksLinks = many LINK (Companies.networks companies),
       productionCompanies = many SHORT_VALUE (Companies.productionCompanies companies),
       productionCompaniesLinks = many LINK (Companies.productionCompanies companies),
       distributor =
         one SHORT_VALUE
           (orEmpty (Option.bind (distributors fullInfo) KinopoiskDistributors.distributor)),
       distributorRelease =
         one SHORT_VALUE
           (let release = Option.bind (distributors fullInfo) KinopoiskDistributors.distributorRelease;
                formatted = formatDate pf release
            in if formatted \<noteq> [] then formatted else orEmpty release),
       sequelsAndPrequels = many SHORT_VALUE (Companies.sequelsAndPrequels companies),
       sequelsAndPrequelsLinks = many LINK (Companies.sequelsAndPrequels companies)\<rparr>)"

section \<open>imageUtils\<close>

text \<open>\<^verbatim>\<open>imagePath.split("/").pop()\<close>: the text after the last slash.\<close>

definition lastSegment :: "jsstring \<Rightarrow> jsstring" where
  "lastSegment imagePath = rev (takeWhile (\<lambda>c. c \<noteq> 47) (rev imagePath))"

text \<open>\<^verbatim>\<open>createImageLink\<close> of the module \<^verbatim>\<open>imageUtils\<close>; an empty last segment is
  falsy and the whole path is used instead.\<close>

definition createImageLink_imageUtils :: "jsstring \<Rightarrow> jsstring list" where
  "createImageLink_imageUtils imagePath =
     (if imagePath = [] \<or> trim imagePath = [] then []
      else if \<not> startsWith imagePath (str ''http'') then
        (let fileName = (if lastSegment imagePath \<noteq> [] then lastSegment imagePath else imagePath)
         in [str ''![['' @ fileName @ str '']]''])
      else [str ''![]('' @ imagePath @ str '')''])"

text \<open>
  The collaborators of the image step: whether \<^verbatim>\<open>new URL(url)\<close> accepts a string, and
  the outcome of \<^verbatim>\<open>downloadAndSaveImage\<close> for a URL, the record, an image type and a
  folder, which is the path of the saved file or a thrown error. The progress callback and
  the notices only report; they are not part of the model.
\<close>

record ImageEnv =
  urlParses :: "jsstring \<Rightarrow> bool"
  downloadAndSaveImage :: "jsstring \<Rightarrow> MovieShow \<Rightarrow> jsstring \<Rightarrow> jsstring \<Rightarrow> jsError + jsstring"

record ImageSettings =
  saveImagesLocally :: bool
  imagesFolder :: jsstring
  savePosterImage :: bool
  saveCoverImage :: bool
  saveLogoImage :: bool

definition isValidImageUrl :: "ImageEnv \<Rightarrow> jsstring \<Rightarrow> bool" where
  "isValidImageUrl env u =
     (if u = [] \<or> trim u = [] then False
      else if urlParses env u then startsWith u (str ''http://'') \<or> startsWith u (str ''https://'')
      else False)"

text \<open>\<^verbatim>\<open>xs.length > 0 && xs[0]\<close> for an array of strings: the first entry, when it is
  there and not empty.\<close>

definition firstTruthy :: "jsstring list \<Rightarrow> jsstring option" where
  "firstTruthy xs = (case xs of [] \<Rightarrow> None | x # _ \<Rightarrow> if x = [] then None else Some x)"

definition toDownload :: "ImageEnv \<Rightarrow> bool \<Rightarrow> jsstring list \<Rightarrow> bool" where
  "toDownload env enabled urls =
     (enabled \<and> (case firstTruthy urls of None \<Rightarrow> False | Some u \<Rightarrow> isValidImageUrl env u))"

definition countImagesToDownload :: "ImageEnv \<Rightarrow> MovieShow \<Rightarrow> ImageSettings \<Rightarrow> nat" where
  "countImagesToDownload env movieShow settings =
     (if toDownload env (savePosterImage settings) (posterUrl movieShow) then 1 else 0)
     + (if toDownload env (saveCoverImage settings) (coverUrl movieShow) then 1 else 0)
     + (if toDownload env (saveLogoImage settings) (logoUrl movieShow) then 1 else 0)"

text \<open>One of the three blocks of \<^verbatim>\<open>processImages\<close>: the new image reference, or
  \<open>None\<close> when the block is skipped.\<close>

definition processOne ::
  "ImageEnv \<Rightarrow> MovieShow \<Rightarrow> ImageSettings \<Rightarrow> bool \<Rightarrow> jsstring list \<Rightarrow> jsstring
     \<Rightarrow> jsstring list option" where
  "processOne env movieShow settings enabled urls imageType =
     (if \<not> enabled then None
      else case firstTruthy urls of
        None \<Rightarrow> None
      | Some u \<Rightarrow>
          if isValidImageUrl env u then
            (case downloadAndSaveImage env u movieShow imageType (imagesFolder settings) of
               Inr localPath \<Rightarrow> Some (createImageLink_imageUtils localPath)
             | Inl error \<Rightarrow> Some (createImageLink_imageUtils u))
          else Some (createImageLink_imageUtils u))"

definition processImages :: "ImageEnv \<Rightarrow> MovieShow \<Rightarrow> ImageSettings \<Rightarrow> MovieShow" where
  "processImages env movieShow settings =
     (if \<not> saveImagesLocally settings then movieShow
      else if countImagesToDownload env movieShow settings = 0 then movieShow
      else
        let u1 = (case processOne env movieShow settings (savePosterImage settings)
                         (posterUrl movieShow) (str ''poster'') of
                    None \<Rightarrow> movieShow
                  | Some link \<Rightarrow> movieShow\<lparr>posterImageLink := link\<rparr>);
            u2 = (case processOne env movieShow settings (saveCoverImage settings)
                         (coverUrl movieShow) (str ''cover'') of
                    None \<Rightarrow> u1
                  | Some link \<Rightarrow> u1\<lparr>coverImageLink := link\<rparr>);
            u3 = (case processOne env movieShow settings (saveLogoImage settings)
                         (logoUrl movieShow) (str ''logo'') of
                    None \<Rightarrow> u2
                  | Some link \<Rightarrow> u2\<lparr>logoImageLink := link\<rparr>)
        in u3)"

section \<open>utils\<close>

subsection \<open>Values\<close>

text \<open>
  The two encoders take a value of type \<^verbatim>\<open>unknown\<close>. A value is \<^verbatim>\<open>undefined\<close>,
  \<^verbatim>\<open>null\<close>, a number, a boolean, a string, an array, or any other object, of which
  only the outcome of converting it to a string matters: the string, or the error
  thrown by the conversion.
\<close>

datatype jsValue =
    Undefined
  | Null
  | Num real
  | Bool bool
  | Str jsstring
  | Arr "jsValue list"
  | Opaque "jsError + jsstring"

definition truthy :: "jsValue \<Rightarrow> bool" where
  "truthy v =
     (case v of
        Undefined \<Rightarrow> False
      | Null \<Rightarrow> False
      | Num n \<Rightarrow> n \<noteq> 0
      | Bool b \<Rightarrow> b
      | Str s \<Rightarrow> s \<noteq> []
      | Arr xs \<Rightarrow> True
      | Opaque r \<Rightarrow> True)"

text \<open>\<^verbatim>\<open>v || ""\<close>.\<close>

definition orEmptyString :: "jsValue \<Rightarrow> jsValue" where
  "orEmptyString v = (if truthy v then v else Str [])"

text \<open>\<^verbatim>\<open>item != null\<close>.\<close>

definition notNullish :: "jsValue \<Rightarrow> bool" where
  "notNullish v = (v \<noteq> Undefined \<and> v \<noteq> Null)"

text \<open>\<^verbatim>\<open>parts.join(sep)\<close> where computing a part may throw: the first error wins.\<close>

fun joinResults :: "jsstring \<Rightarrow> (jsError + jsstring) list \<Rightarrow> jsError + jsstring" where
  "joinResults sep [] = Inr []"
| "joinResults sep [r] = r"
| "joinResults sep (r # r' # rs) =
     (case r of
        Inl e \<Rightarrow> Inl e
      | Inr x \<Rightarrow> (case joinResults sep (r' # rs) of Inl e \<Rightarrow> Inl e | Inr y \<Rightarrow> Inr (x @ sep @ y)))"


text \<open>\<^verbatim>\<open>String(v)\<close>; an array is joined with commas, a nullish entry giving the empty
  string.\<close>

fun jsToString :: "Platform \<Rightarrow> jsValue \<Rightarrow> jsError + jsstring" where
  "jsToString pf Undefined = Inr (str ''undefined'')"
| "jsToString pf Null = Inr (str ''null'')"
| "jsToString pf (Num n) = Inr (numberToString pf n)"
| "jsToString pf (Bool b) = Inr (if b then str ''true'' else str ''false'')"
| "jsToString pf (Str s) = Inr s"
| "jsToString pf (Arr xs) =
     joinResults (str '','')
       (map (\<lambda>x. if x = Undefined \<or> x = Null then Inr [] else jsToString pf x) xs)"
| "jsToString pf (Opaque r) = r"

subsection \<open>Helpers\<close>


text \<open>\<^verbatim>\<open>s.replace(/^"(.*)"$/, "$1")\<close>: a string that begins and ends with a double
  quote (two different characters) and has no line terminator between them loses the
  two quotes.\<close>

definition stripQuotes :: "jsstring \<Rightarrow> jsstring" where
  "stripQuotes s =
     (if 2 \<le> length s \<and> hd s = 34 \<and> last s = 34
         \<and> list_all (\<lambda>c. \<not> isLineTerminator c) (butlast (tl s))
      then butlast (tl s) else s)"

text \<open>\<^verbatim>\<open>inner.replace(/"/g, '\\"')\<close>: a backslash goes before every double quote.\<close>

definition escapeQuotes :: "jsstring \<Rightarrow> jsstring" where
  "escapeQuotes inner = concat (map (\<lambda>c. if c = 34 then [92, 34] else [c]) inner)"

text \<open>A string in double quotes: the text between the first and the last character
  (\<^verbatim>\<open>slice(1, -1)\<close>) has its quotes escaped and is wrapped again.\<close>

definition escapeQuoted :: "jsstring \<Rightarrow> jsstring" where
  "escapeQuoted s =
     (if startsWith s [34] \<and> endsWith s [34]
      then [34] @ escapeQuotes (butlast (tl s)) @ [34]
      else s)"

text \<open>An entry of an array in the header: an image reference with no quote at either
  end is wrapped in quotes; otherwise the entry is treated as \<open>escapeQuoted\<close> does.\<close>

definition quoteItem :: "jsstring \<Rightarrow> jsstring" where
  "quoteItem itemStr =
     (if (startsWith itemStr (str ''![['') \<or> startsWith itemStr (str ''![](''))
         \<and> \<not> startsWith itemStr [34] \<and> \<not> endsWith itemStr [34]
      then [34] @ itemStr @ [34]
      else escapeQuoted itemStr)"

definition getPlainValueFromArray :: "Platform \<Rightarrow> jsValue \<Rightarrow> jsError + jsValue" where
  "getPlainValueFromArray pf v =
     (case v of
        Arr [] \<Rightarrow> Inr (Str [])
      | Arr [firstValue] \<Rightarrow>
          (case firstValue of
             Str s \<Rightarrow> Inr (Str (stripQuotes s))
           | Undefined \<Rightarrow> Inr (Str [])
           | Null \<Rightarrow> Inr (Str [])
           | _ \<Rightarrow> Inr firstValue)
      | Arr xs \<Rightarrow>
          map_sum (\<lambda>e. e) Str
            (joinResults (str '', '')
               (map (\<lambda>item. case item of Str s \<Rightarrow> Inr (stripQuotes s) | _ \<Rightarrow> jsToString pf item)
                  (filter notNullish xs)))
      | Num n \<Rightarrow> Inr (Num n)
      | _ \<Rightarrow> map_sum (\<lambda>e. e) Str (jsToString pf (orEmptyString v)))"

definition getQuotedValueFromArray :: "Platform \<Rightarrow> jsValue \<Rightarrow> jsError + jsstring" where
  "getQuotedValueFromArray pf v =
     (case v of
        Arr [] \<Rightarrow> Inr []
      | Arr [x] \<Rightarrow> map_sum (\<lambda>e. e) quoteItem (jsToString pf (orEmptyString x))
      | Arr xs \<Rightarrow>
          joinResults (str '', '')
            (map (\<lambda>item. map_sum (\<lambda>e. e) quoteItem (jsToString pf item)) (filter notNullish xs))
      | _ \<Rightarrow> map_sum (\<lambda>e. e) escapeQuoted (jsToString pf (orEmptyString v)))"

subsection \<open>Replacing a placeholder\<close>

text \<open>
  The replacement text of \<^verbatim>\<open>String.prototype.replace\<close> for a pattern without capture
  groups: \<^verbatim>\<open>$$\<close> is a dollar sign, \<^verbatim>\<open>$&\<close> the matched text, \<^verbatim>\<open>$`\<close> the text before
  the match and \<^verbatim>\<open>$'\<close> the text after it; any other dollar sign stands for itself.
\<close>

fun getSubstitution :: "jsstring \<Rightarrow> jsstring \<Rightarrow> jsstring \<Rightarrow> jsstring \<Rightarrow> jsstring" where
  "getSubstitution matched preceding following [] = []"
| "getSubstitution matched preceding following [c] = [c]"
| "getSubstitution matched preceding following (c # d # rest) =
     (if c = 36 then
        (if d = 36 then 36 # getSubstitution matched preceding following rest
         else if d = 38 then matched @ getSubstitution matched preceding following rest
         else if d = 96 then preceding @ getSubstitution matched preceding following rest
         else if d = 39 then following @ getSubstitution matched preceding following rest
         else 36 # getSubstitution matched preceding following (d # rest))
      else c # getSubstitution matched preceding following (d # rest))"

text \<open>Matching with the flag \<^verbatim>\<open>i\<close> and without the flag \<^verbatim>\<open>u\<close>: for a pattern of
  ASCII characters two characters match when they are ASCII and equal up to ASCII
  case.\<close>

definition asciiUpper :: "int \<Rightarrow> int" where
  "asciiUpper c = (if 97 \<le> c \<and> c \<le> 122 then c - 32 else c)"

definition matchesIgnoreCase :: "jsstring \<Rightarrow> jsstring \<Rightarrow> bool" where
  "matchesIgnoreCase pat s =
     (length pat \<le> length s \<and> map asciiUpper (take (length pat) s) = map asciiUpper pat)"

text \<open>
  \<^verbatim>\<open>result.replace(new RegExp(`{{${key}}}`, "ig"), replacement)\<close> for a key made of
  word characters, as every property name of \<^verbatim>\<open>MovieShow\<close> is: the braces of the
  pattern stand for themselves, so the pattern matches the token, ignoring case. The
  matches are found from left to right in the text as it was before the call;
  \<open>preceding\<close> is the part of that text already passed.
\<close>

function replaceToken :: "jsstring \<Rightarrow> jsstring \<Rightarrow> jsstring \<Rightarrow> jsstring \<Rightarrow> jsstring" where
  "replaceToken tok rep preceding [] = []"
| "replaceToken tok rep preceding (c # cs) =
     (if tok \<noteq> [] \<and> matchesIgnoreCase tok (c # cs)
      then getSubstitution (take (length tok) (c # cs)) preceding (drop (length tok) (c # cs)) rep
             @ replaceToken tok rep (preceding @ take (length tok) (c # cs))
                 (drop (length tok) (c # cs))
      else c # replaceToken tok rep (preceding @ [c]) cs)"
  by pat_completeness auto
termination
  by (relation "measure (\<lambda>(tok, rep, preceding, s). length s)") (auto simp: neq_Nil_conv)

definition placeholder :: "jsstring \<Rightarrow> jsstring" where
  "placeholder key = str ''{{'' @ key @ str ''}}''"

text \<open>\<^verbatim>\<open>.replace(/{{\w+}}/gi, "")\<close>: two opening braces, the maximal run of word
  characters (at least one) and two closing braces are deleted; the text is passed once.\<close>

definition tokenRest :: "jsstring \<Rightarrow> jsstring option" where
  "tokenRest s =
     (if startsWith s (str ''{{'') then
        (let w = takeWhile isWordChar (drop 2 s); r = dropWhile isWordChar (drop 2 s)
         in if w \<noteq> [] \<and> startsWith r (str ''}}'') then Some (drop 2 r) else None)
      else None)"

lemma length_tokenRest: "tokenRest s = Some r \<Longrightarrow> length r < length s"
proof -
  assume a: "tokenRest s = Some r"
  then have s: "startsWith s (str ''{{'')"
    by (simp add: tokenRest_def split: if_splits)
  then have l: "2 \<le> length s"
    by (cases s; cases "tl s") (auto simp: startsWith_def str_def)
  from a have "r = drop 2 (dropWhile isWordChar (drop 2 s))"
    by (simp add: tokenRest_def Let_def split: if_splits)
  then have "length r \<le> length (dropWhile isWordChar (drop 2 s))"
    by simp
  also have "\<dots> \<le> length (drop 2 s)"
    by (rule length_dropWhile_le)
  finally show ?thesis using l by simp
qed

function removeTokens :: "jsstring \<Rightarrow> jsstring" where
  "removeTokens [] = []"
| "removeTokens (c # cs) =
     (case tokenRest (c # cs) of
        Some r \<Rightarrow> removeTokens r
      | None \<Rightarrow> c # removeTokens cs)"
  by pat_completeness auto
termination
  by (relation "measure length") (auto dest: length_tokenRest)

subsection \<open>The header block\<close>

text \<open>
  \<^verbatim>\<open>text.match(/^---\s*\n([\s\S]*?)\n---\s*\n([\s\S]*)$/)\<close>. After three hyphens,
  \<^verbatim>\<open>\s*\n\<close> ends at a line feed inside the run of white space that follows;
  \<open>afterLineFeeds\<close> lists what is left after each such line feed, from left to right, and
  the matcher tries the last one first. The first group is as short as possible, so
  \<open>findClose\<close> looks for the first \<^verbatim>\<open>\n---\<close> that \<^verbatim>\<open>\s*\n\<close> can follow; the second
  group is the rest of the text.
\<close>

fun afterLineFeeds :: "jsstring \<Rightarrow> jsstring list" where
  "afterLineFeeds [] = []"
| "afterLineFeeds (c # cs) =
     (if isWhiteSpace c then (if c = 10 then [cs] else []) @ afterLineFeeds cs else [])"

fun findClose :: "jsstring \<Rightarrow> jsstring \<Rightarrow> (jsstring \<times> jsstring) option" where
  "findClose frontmatter [] = None"
| "findClose frontmatter (c # cs) =
     (if startsWith (c # cs) (10 # str ''---'') \<and> afterLineFeeds (drop 4 (c # cs)) \<noteq> []
      then Some (frontmatter, last (afterLineFeeds (drop 4 (c # cs))))
      else findClose (frontmatter @ [c]) cs)"

fun firstSome :: "('a \<Rightarrow> 'b option) \<Rightarrow> 'a list \<Rightarrow> 'b option" where
  "firstSome f [] = None"
| "firstSome f (x # xs) = (case f x of Some y \<Rightarrow> Some y | None \<Rightarrow> firstSome f xs)"

definition matchFrontmatter :: "jsstring \<Rightarrow> (jsstring \<times> jsstring) option" where
  "matchFrontmatter text =
     (if startsWith text (str ''---'')
      then firstSome (findClose []) (rev (afterLineFeeds (drop 3 text)))
      else None)"

subsection \<open>replaceVariableSyntax\<close>

text \<open>\<^verbatim>\<open>Object.entries(movieShow)\<close> of a normalized record.\<close>

definition strings :: "jsstring list \<Rightarrow> jsValue" where
  "strings xs = Arr (map Str xs)"

definition entries :: "MovieShow \<Rightarrow> (jsstring \<times> jsValue) list" where
  "entries m =
     [(str ''id'', Num (MovieShow.id m)),
      (str ''name'', strings (MovieShow.name m)),
      (str ''alternativeName'', strings (MovieShow.alternativeName m)),
      (str ''year'', Num (MovieShow.year m)),
      (str ''description'', strings (MovieShow.description m)),
      (str ''shortDescription'', strings (MovieShow.shortDescription m)),
      (str ''nameForFile'', Str (MovieShow.nameForFile m)),
      (str ''alternativeNameForFile'', Str (MovieShow.alternativeNameForFile m)),
      (str ''enNameForFile'', Str (MovieShow.enNameForFile m)),
      (str ''posterUrl'', strings (MovieShow.posterUrl m)),
      (str ''coverUrl'', strings (MovieShow.coverUrl m)),
      (str ''logoUrl'', strings (MovieShow.logoUrl m)),
      (str ''posterImageLink'', strings (MovieShow.posterImageLink m)),
      (str ''coverImageLink'', strings (MovieShow.coverImageLink m)),
      (str ''logoImageLink'', strings (MovieShow.logoImageLink m)),
      (str ''genres'', strings (MovieShow.genres m)),
      (str ''genresLinks'', strings (MovieShow.genresLinks m)),
      (str ''countries'', strings (MovieShow.countries m)),
      (str ''countriesLinks'', strings (MovieShow.countriesLinks m)),
      (str ''type'', strings (MovieShow.type m)),
      (str ''subType'', strings (MovieShow.subType m)),
      (str ''director'', strings (MovieShow.director m)),
      (str ''directorsLinks'', strings (MovieShow.directorsLinks m)),
      (str ''actors'', strings (MovieShow.actors m)),
      (str ''actorsLinks'', strings (MovieShow.actorsLinks m)),
      (str ''writers'', strings (MovieShow.writers m)),
      (str ''writersLinks'', strings (MovieShow.writersLinks m)),
      (str ''producers'', strings (MovieShow.producers m)),
      (str ''producersLinks'', strings (MovieShow.producersLinks m)),
      (str ''movieLength'', Num (MovieShow.movieLength m)),
      (str ''isSeries'', Bool (MovieShow.isSeries m)),
      (str ''seriesLength'', Num (MovieShow.seriesLength m)),
      (str ''totalSeriesLength'', Num (MovieShow.totalSeriesLength m)),
      (str ''isComplete'', Bool (MovieShow.isComplete m)),
      (str ''seasonsCount'', Num (MovieShow.seasonsCount m)),
      (str ''seriesInSeasonCount'', Num (MovieShow.seriesInSeasonCount m)),
      (str ''ratingKp'', Num (MovieShow.ratingKp m)),
      (str ''ratingImdb'', Num (MovieShow.ratingImdb m)),
      (str ''ratingFilmCritics'', Num (MovieShow.ratingFilmCritics m)),
      (str ''ratingRussianFilmCritics'', Num (MovieShow.ratingRussianFilmCritics m)),
      (str ''votesKp'', Num (MovieShow.votesKp m)),
      (str ''votesImdb'', Num (MovieShow.votesImdb m)),
      (str ''votesFilmCritics'', Num (MovieShow.votesFilmCritics m)),
      (str ''votesRussianFilmCritics'', Num (MovieShow.votesRussianFilmCritics m)),
      (str ''kinopoiskUrl'', strings (MovieShow.kinopoiskUrl m)),
      (str ''imdbId'', strings (MovieShow.imdbId m)),
      (str ''tmdbId'', Num (MovieShow.tmdbId m)),
      (str ''kpHDId'', strings (MovieShow.kpHDId m)),
      (str ''slogan'', strings (MovieShow.slogan m)),
      (str ''ageRating'', Num (MovieShow.ageRating m)),
      (str ''ratingMpaa'', strings (MovieShow.ratingMpaa m)),
      (str ''budgetValue'', Num (MovieShow.budgetValue m)),
      (str ''budgetCurrency'', strings (MovieShow.budgetCurrency m)),
      (str ''feesWorldValue'', Num (MovieShow.feesWorldValue m)),
      (str ''feesWorldCurrency'', strings (MovieShow.feesWorldCurrency m)),
      (str ''feesRussiaValue'', Num (MovieShow.feesRussiaValue m)),
      (str ''feesRussiaCurrency'', strings (MovieShow.feesRussiaCurrency m)),
      (str ''feesUsaValue'', Num (MovieShow.feesUsaValue m)),
      (str ''feesUsaCurrency'', strings (MovieShow.feesUsaCurrency m)),
      (str ''premiereWorld'', strings (MovieShow.premiereWorld m)),
      (str ''premiereRussia'', strings (MovieShow.premiereRussia m)),
      (str ''premiereDigital'', strings (MovieShow.premiereDigital m)),
      (str ''premiereCinema'', strings (MovieShow.premiereCinema m)),
      (str ''releaseYearsStart'', Num (MovieShow.releaseYearsStart m)),
      (str ''releaseYearsEnd'', Num (MovieShow.releaseYearsEnd m)),
      (str ''top10'', Num (MovieShow.top10 m)),
      (str ''top250'', Num (MovieShow.top250 m)),
      (str ''facts'', strings (MovieShow.facts m)),
      (str ''allNamesString'', strings (MovieShow.allNamesString m)),
      (str ''enName'', strings (MovieShow.enName m)),
      (str ''networks'', strings (MovieShow.networks m)),
      (str ''networksLinks'', strings (MovieShow.networksLinks m)),
      (str ''productionCompanies'', strings (MovieShow.productionCompanies m)),
      (str ''productionCompaniesLinks'', strings (MovieShow.productionCompaniesLinks m)),
      (str ''distributor'', strings (MovieShow.distributor m)),
      (str ''distributorRelease'', strings (MovieShow.distributorRelease m)),
      (str ''sequelsAndPrequels'', strings (MovieShow.sequelsAndPrequels m)),
      (str ''sequelsAndPrequelsLinks'', strings (MovieShow.sequelsAndPrequelsLinks m))]"

text \<open>The property names of a record are made of word characters; the model of
  \<open>replaceToken\<close> is about such names.\<close>

definition wordKeys :: "(jsstring \<times> jsValue) list \<Rightarrow> bool" where
  "wordKeys es = list_all (\<lambda>entry. fst entry \<noteq> [] \<and> list_all isWordChar (fst entry)) es"

text \<open>
  \<^verbatim>\<open>try { ... } catch (error) { ... }\<close>, and \<^verbatim>\<open>Object.entries\<close> of a record that
  may be \<^verbatim>\<open>null\<close> or \<^verbatim>\<open>undefined\<close> (\<open>None\<close>), which throws.
\<close>

definition tryCatch :: "jsError + 'a \<Rightarrow> (jsError \<Rightarrow> jsError + 'a) \<Rightarrow> jsError + 'a" where
  "tryCatch body handler = (case body of Inl error \<Rightarrow> handler error | Inr v \<Rightarrow> Inr v)"

definition objectEntries ::
  "(jsstring \<times> jsValue) list option \<Rightarrow> jsError + (jsstring \<times> jsValue) list" where
  "objectEntries movieShow = (case movieShow of None \<Rightarrow> Inl TypeError | Some es \<Rightarrow> Inr es)"

definition bindResult :: "jsError + 'a \<Rightarrow> ('a \<Rightarrow> jsError + 'b) \<Rightarrow> jsError + 'b" where
  "bindResult r f = (case r of Inl e \<Rightarrow> Inl e | Inr v \<Rightarrow> f v)"

text \<open>The two encodings of a value as the reducers compute them, and one step of a
  reducer: \<^verbatim>\<open>val\<close> defaults to the empty string when it is \<^verbatim>\<open>undefined\<close>, and an
  error thrown by the encoding is caught and leaves the text as it is.\<close>

definition quotedText :: "Platform \<Rightarrow> jsValue \<Rightarrow> jsError + jsstring" where
  "quotedText pf val = getQuotedValueFromArray pf val"

definition plainText :: "Platform \<Rightarrow> jsValue \<Rightarrow> jsError + jsstring" where
  "plainText pf val = bindResult (getPlainValueFromArray pf val) (jsToString pf)"

definition substituteEntry ::
  "(jsValue \<Rightarrow> jsError + jsstring) \<Rightarrow> jsstring \<Rightarrow> jsstring \<times> jsValue \<Rightarrow> jsstring" where
  "substituteEntry encode result entry =
     (case entry of
        (key, val) \<Rightarrow>
          (case tryCatch
                  (bindResult (encode (if val = Undefined then Str [] else val))
                     (\<lambda>text. Inr (replaceToken (placeholder key) text [] result)))
                  (\<lambda>error. Inr result) of
             Inr r \<Rightarrow> r
           | Inl error \<Rightarrow> result))"

definition replaceVariableSyntax ::
  "Platform \<Rightarrow> (jsstring \<times> jsValue) list option \<Rightarrow> jsstring \<Rightarrow> jsError + jsstring" where
  "replaceVariableSyntax pf movieShow text =
     (if trim text = [] then Inr []
      else
        tryCatch
          (case matchFrontmatter text of
             Some (frontmatter, body) \<Rightarrow>
               bindResult (objectEntries movieShow)
                 (\<lambda>es. bindResult (objectEntries movieShow)
                   (\<lambda>es'. Inr (trim (removeTokens
                      (str ''---'' @ [10] @ foldl (substituteEntry (quotedText pf)) frontmatter es
                         @ [10] @ str ''---'' @ [10]
                         @ foldl (substituteEntry (plainText pf)) body es')))))
           | None \<Rightarrow>
               bindResult (objectEntries movieShow)
                 (\<lambda>es. Inr (trim (removeTokens (foldl (substituteEntry (plainText pf)) text es)))))
          (\<lambda>error. Inr text))"

subsection \<open>makeFileName\<close>

text \<open>The message catalog \<^verbatim>\<open>translations\<close>, for the two keys that \<^verbatim>\<open>makeFileName\<close>
  reads, and the lookup \<^verbatim>\<open>t\<close>, which returns the key itself when the catalog of the
  current language has no such entry.\<close>

datatype SupportedLanguage = ru | en

definition i18n_translations :: "SupportedLanguage \<Rightarrow> (jsstring \<times> jsstring) list" where
  "i18n_translations lang =
     (case lang of
        ru \<Rightarrow>
          [(str ''utils.unknownMovie'',
              [1053, 1077, 1080, 1079, 1074, 1077, 1089, 1090, 1085, 1099, 1081, 32,
               1092, 1080, 1083, 1100, 1084]),
           (str ''utils.copyPrefix'', [1050, 1086, 1087, 1080, 1103])]
      | en \<Rightarrow>
          [(str ''utils.unknownMovie'', str ''Unknown Movie''),
           (str ''utils.copyPrefix'', str ''Copy'')])"

definition i18n_t :: "SupportedLanguage \<Rightarrow> jsstring \<Rightarrow> jsstring" where
  "i18n_t lang key =
     (case map_of (i18n_translations lang) key of Some v \<Rightarrow> v | None \<Rightarrow> key)"

text \<open>
  The host application: the current language, whether
  \<^verbatim>\<open>vault.getAbstractFileByPath\<close> finds a file at a path, and \<^verbatim>\<open>normalizePath\<close>.
\<close>

record App =
  currentLanguage :: SupportedLanguage
  getAbstractFileByPath :: "jsstring \<Rightarrow> bool"
  normalizePath :: "jsstring \<Rightarrow> jsstring"





definition unknownMovie :: "App \<Rightarrow> jsstring" where
  "unknownMovie app = i18n_t (currentLanguage app) (str ''utils.unknownMovie'')"

definition defaultBaseName :: "Platform \<Rightarrow> App \<Rightarrow> MovieShow \<Rightarrow> jsstring" where
  "defaultBaseName pf app movieShow =
     (if nameForFile movieShow \<noteq> [] then nameForFile movieShow else unknownMovie app)
     @ str '' (''
     @ (if MovieShow.year movieShow \<noteq> 0 then numberToString pf (MovieShow.year movieShow)
        else unknownMovie app)
     @ str '')''"

definition baseNameOf :: "Platform \<Rightarrow> App \<Rightarrow> MovieShow \<Rightarrow> jsstring option \<Rightarrow> jsError + jsstring" where
  "baseNameOf pf app movieShow fileNameFormat =
     (case fileNameFormat of
        None \<Rightarrow> Inr (defaultBaseName pf app movieShow)
      | Some format \<Rightarrow>
          if format \<noteq> [] then replaceVariableSyntax pf (Some (entries movieShow)) format
          else Inr (defaultBaseName pf app movieShow))"


section \<open>Example inputs\<close>

text \<open>
  A date parser for examples: the date-only form \<^verbatim>\<open>YYYY-MM-DD\<close> of the ECMAScript
  date-time string format, read as midnight UTC; any other string is not parsed.
\<close>

definition isDigit :: "int \<Rightarrow> bool" where
  "isDigit c = (48 \<le> c \<and> c \<le> 57)"

definition toNumber :: "jsstring \<Rightarrow> int" where
  "toNumber s = foldl (\<lambda>acc c. 10 * acc + (c - 48)) 0 s"

definition daysInMonth :: "int \<Rightarrow> int \<Rightarrow> int" where
  "daysInMonth y m =
     (if m = 2 then (if y mod 4 = 0 \<and> (y mod 100 \<noteq> 0 \<or> y mod 400 = 0) then 29 else 28)
      else if m = 4 \<or> m = 6 \<or> m = 9 \<or> m = 11 then 30 else 31)"

definition daysFromCivil :: "int \<Rightarrow> int \<Rightarrow> int \<Rightarrow> int" where
  "daysFromCivil y0 m d =
     (let y = (if m \<le> 2 then y0 - 1 else y0);
          era = y div 400;
          yoe = y - era * 400;
          doy = (153 * (if m > 2 then m - 3 else m + 9) + 2) div 5 + d - 1;
          doe = yoe * 365 + yoe div 4 - yoe div 100 + doy
      in era * 146097 + doe - 719468)"

definition parseIsoDate :: "jsstring \<Rightarrow> int option" where
  "parseIsoDate s =
     (if length s = 10 \<and> list_all isDigit (take 4 s) \<and> s ! 4 = 45
         \<and> list_all isDigit (take 2 (drop 5 s)) \<and> s ! 7 = 45 \<and> list_all isDigit (drop 8 s)
      then
        (let y = toNumber (take 4 s); m = toNumber (take 2 (drop 5 s)); d = toNumber (drop 8 s)
         in if 1 \<le> m \<and> m \<le> 12 \<and> 1 \<le> d \<and> d \<le> daysInMonth y m
            then Some (daysFromCivil y m d * msPerDay) else None)
      else None)"

text \<open>A platform for evaluating the model on examples: non-negative whole numbers print
  in decimal, ASCII letters are upper-cased, dates are parsed by \<open>parseIsoDate\<close> and
  local time is UTC.\<close>

definition examplePlatform :: Platform where
  "examplePlatform =
     \<lparr>numberToString = (\<lambda>x. digits (nat \<lfloor>x\<rfloor>)),
      toUpperCase = map (\<lambda>c. if 97 \<le> c \<and> c \<le> 122 then c - 32 else c),
      dateParse = parseIsoDate,
      localTZA = (\<lambda>t. 0)\<rparr>"

text \<open>The raw record with the required properties only.\<close>

definition minimalInfo ::
  "real \<Rightarrow> jsstring \<Rightarrow> jsstring \<Rightarrow> jsstring \<Rightarrow> real \<Rightarrow> bool \<Rightarrow> KinopoiskFullInfo" where
  "minimalInfo i n a t y s =
     \<lparr>KinopoiskFullInfo.id = i, name = n, alternativeName = a, type = t, year = y,
      description = None, poster = None, genres = [], countries = [], persons = [],
      movieLength = None, backdrop = None, logo = None, isSeries = s, seriesLength = None,
      status = None, rating = None, externalId = None, seasonsInfo = None, slogan = None,
      budget = None, fees = None, premiere = None, votes = None, facts = None,
      shortDescription = None, ageRating = None, ratingMpaa = None, releaseYears = None,
      top10 = None, top250 = None, totalSeriesLength = None, typeNumber = None,
      enName = None, names = None, networks = None, subType = None,
      sequelsAndPrequels = None, productionCompanies = None, distributors = None\<rparr>"

definition exampleFact :: "jsstring \<Rightarrow> bool \<Rightarrow> KinopoiskFact" where
  "exampleFact v sp = \<lparr>KinopoiskFact.value = v, type = str ''FACT'', spoiler = Some sp\<rparr>"

definition infoWithFacts :: KinopoiskFullInfo where
  "infoWithFacts =
     (minimalInfo 1 (str ''A'') (str ''B'') (str ''movie'') 2010 False)
       \<lparr>KinopoiskFullInfo.facts :=
          Some [exampleFact (str ''one'') False, exampleFact (str ''two'') True,
                exampleFact (str ''<b>three</b>'') False, exampleFact (str ''four'') False,
                exampleFact (str ''five &amp; six'') False, exampleFact (str ''seven'') True,
                exampleFact (str ''eight'') False, exampleFact (str ''nine'') False]\<rparr>"

definition exampleMinimal :: KinopoiskFullInfo where
  "exampleMinimal = minimalInfo 1 (str ''A'') (str ''B'') (str ''movie'') 2010 False"

definition infoWithGenres :: KinopoiskFullInfo where
  "infoWithGenres =
     exampleMinimal
       \<lparr>KinopoiskFullInfo.genres :=
          [\<lparr>KinopoiskSimpleItem.name = str ''drama''\<rparr>,
           \<lparr>KinopoiskSimpleItem.name = str ''sci-fi: space ''\<rparr>],
        KinopoiskFullInfo.countries := [\<lparr>KinopoiskSimpleItem.name = str ''usa''\<rparr>]\<rparr>"

definition exampleShow :: MovieShow where
  "exampleShow = projr (createMovieShowFrom examplePlatform exampleMinimal)"

definition exampleImageEnv :: ImageEnv where
  "exampleImageEnv =
     \<lparr>urlParses = (\<lambda>u. True),
      downloadAndSaveImage = (\<lambda>u movieShow imageType folder. Inl TypeError)\<rparr>"

definition exampleSettings :: "bool \<Rightarrow> ImageSettings" where
  "exampleSettings on =
     \<lparr>saveImagesLocally = on, imagesFolder = str ''attachments'', savePosterImage = True,
      saveCoverImage = True, saveLogoImage = True\<rparr>"

text \<open>Examples for the template engine, the file namer, a time zone five hours behind
  UTC, and genre names that begin with a blank or a colon.\<close>

definition throwingRecord :: "(jsstring \<times> jsValue) list" where
  "throwingRecord = [(str ''name'', Arr [Opaque (Inl TypeError)]), (str ''year'', Num 2010)]"

definition westPlatform :: Platform where
  "westPlatform = examplePlatform\<lparr>localTZA := (\<lambda>t. - 18000000)\<rparr>"

definition infoOddGenres :: KinopoiskFullInfo where
  "infoOddGenres =
     exampleMinimal
       \<lparr>KinopoiskFullInfo.genres :=
          [\<lparr>KinopoiskSimpleItem.name = str '' drama''\<rparr>,
           \<lparr>KinopoiskSimpleItem.name = str '':comedy''\<rparr>,
           \<lparr>KinopoiskSimpleItem.name = str ''action''\<rparr>]\<rparr>"






section \<open>Properties\<close>

subsection \<open>White space and trimming\<close>

lemma last_dropWhile: "dropWhile P xs \<noteq> [] \<Longrightarrow> last (dropWhile P xs) = last xs"
  by (induction xs) (auto split: if_splits)


lemma trim_eq_Nil_iff: "trim s = [] \<longleftrightarrow> (\<forall>c \<in> set s. isWhiteSpace c)"
proof
  assume "trim s = []"
  then have a: "\<forall>c \<in> set (dropWhile isWhiteSpace s). isWhiteSpace c"
    by (simp add: trim_def)
  show "\<forall>c \<in> set s. isWhiteSpace c"
  proof (cases "dropWhile isWhiteSpace s")
    case Nil
    then show ?thesis by simp
  next
    case (Cons x xs)
    then have "\<not> isWhiteSpace x" using hd_dropWhile [of isWhiteSpace s] by simp
    with a Cons show ?thesis by simp
  qed
next
  assume "\<forall>c \<in> set s. isWhiteSpace c"
  then have d: "dropWhile isWhiteSpace s = []" by simp
  show "trim s = []" by (simp only: trim_def d rev.simps dropWhile.simps)
qed

lemma keepItem_iff:
  "keepItem item \<longleftrightarrow> (\<exists>s. item = Some s \<and> (\<exists>c \<in> set s. \<not> isWhiteSpace c))"
  by (cases item) (auto simp: keepItem_def trim_eq_Nil_iff)

subsection \<open>The fields of the normalized record\<close>

lemma trim_id:
  assumes "s \<noteq> []" "\<not> isWhiteSpace (hd s)" "\<not> isWhiteSpace (last s)"
  shows "trim s = s"
proof -
  from assms have a: "dropWhile isWhiteSpace s = s"
    by (cases s) auto
  from assms have "rev s \<noteq> []" "\<not> isWhiteSpace (hd (rev s))"
    by (auto simp: hd_rev)
  then have "dropWhile isWhiteSpace (rev s) = rev s"
    by (cases "rev s") auto
  with a show ?thesis by (simp add: trim_def)
qed

lemma many_eq: "many formatType xs = map (formatItem formatType) (take 15 (filter nonBlank xs))"
proof -
  have "filter keepItem (map Some xs) = map Some (filter nonBlank xs)"
    by (induction xs) (auto simp: keepItem_def nonBlank_def)
  then show ?thesis
    by (simp add: many_def formatArray_def MAX_ARRAY_ITEMS_def take_map comp_def)
qed

lemma one_eq: "one formatType x = (if nonBlank x then [formatItem formatType x] else [])"
  by (simp add: one_def formatArray_def MAX_ARRAY_ITEMS_def keepItem_def nonBlank_def)

lemma one_Nil: "one formatType [] = []"
  by (simp add: one_eq nonBlank_def)

lemma many_Nil: "many formatType [] = []"
  by (simp add: many_eq)

lemma kinopoiskUrl_value:
  "one URL (str ''https://www.kinopoisk.ru/film/'' @ ns @ str ''/'')
     = [str ''https://www.kinopoisk.ru/film/'' @ ns @ str ''/'']"
proof -
  let ?u = "str ''https://www.kinopoisk.ru/film/'' @ ns @ str ''/''"
  have "?u \<noteq> []" "\<not> isWhiteSpace (hd ?u)" "\<not> isWhiteSpace (last ?u)"
    by (simp_all add: str_def isWhiteSpace_def)
  then have "trim ?u = ?u" by (rule trim_id)
  moreover have "?u \<noteq> []" by (simp add: str_def)
  ultimately show ?thesis
    by (simp add: one_eq nonBlank_def formatItem_def)
qed

lemma createMovieShowFrom_TypeError:
  "translateType (KinopoiskFullInfo.type fullInfo) = None
   \<Longrightarrow> createMovieShowFrom pf fullInfo = Inl TypeError"
  by (simp add: createMovieShowFrom_def Let_def)

lemma createMovieShowFrom_Inr:
  "translateType (KinopoiskFullInfo.type fullInfo) = Some label
   \<Longrightarrow> \<exists>item. createMovieShowFrom pf fullInfo = Inr item"
  by (simp add: createMovieShowFrom_def Let_def)

lemma minimal_result:
  assumes l: "translateType t = Some label"
  shows "\<exists>item. createMovieShowFrom pf (minimalInfo i n a t y s) = Inr item
     \<and> MovieShow.id item = i \<and> MovieShow.year item = y \<and> MovieShow.isSeries item = s
     \<and> MovieShow.name item = (if nonBlank n then [cleanTextForMetadata n] else [])
     \<and> MovieShow.alternativeName item = (if nonBlank a then [cleanTextForMetadata a] else [])
     \<and> MovieShow.type item = (if nonBlank label then [cleanTextForMetadata label] else [])
     \<and> nameForFile item = cleanTextForMetadata n
     \<and> alternativeNameForFile item = cleanTextForMetadata a
     \<and> enNameForFile item = []
     \<and> kinopoiskUrl item = [str ''https://www.kinopoisk.ru/film/'' @ numberToString pf i @ str ''/'']
     \<and> MovieShow.description item = [] \<and> MovieShow.shortDescription item = []
     \<and> posterUrl item = [] \<and> coverUrl item = [] \<and> logoUrl item = []
     \<and> posterImageLink item = [] \<and> coverImageLink item = [] \<and> logoImageLink item = []
     \<and> MovieShow.genres item = [] \<and> genresLinks item = []
     \<and> MovieShow.countries item = [] \<and> countriesLinks item = []
     \<and> MovieShow.subType item = []
     \<and> director item = [] \<and> directorsLinks item = []
     \<and> MovieShow.actors item = [] \<and> actorsLinks item = []
     \<and> MovieShow.writers item = [] \<and> writersLinks item = []
     \<and> MovieShow.producers item = [] \<and> producersLinks item = []
     \<and> MovieShow.movieLength item = 0 \<and> MovieShow.seriesLength item = 0
     \<and> MovieShow.totalSeriesLength item = 0 \<and> isComplete item = False
     \<and> seasonsCount item = 0 \<and> seriesInSeasonCount item = 0
     \<and> ratingKp item = 0 \<and> ratingImdb item = 0 \<and> ratingFilmCritics item = 0
     \<and> ratingRussianFilmCritics item = 0
     \<and> votesKp item = 0 \<and> votesImdb item = 0 \<and> votesFilmCritics item = 0
     \<and> votesRussianFilmCritics item = 0
     \<and> imdbId item = [] \<and> tmdbId item = 0 \<and> kpHDId item = []
     \<and> MovieShow.slogan item = [] \<and> MovieShow.ageRating item = 0 \<and> MovieShow.ratingMpaa item = []
     \<and> budgetValue item = 0 \<and> budgetCurrency item = []
     \<and> feesWorldValue item = 0 \<and> feesWorldCurrency item = []
     \<and> feesRussiaValue item = 0 \<and> feesRussiaCurrency item = []
     \<and> feesUsaValue item = 0 \<and> feesUsaCurrency item = []
     \<and> premiereWorld item = [] \<and> premiereRussia item = []
     \<and> premiereDigital item = [] \<and> premiereCinema item = []
     \<and> releaseYearsStart item = 0 \<and> releaseYearsEnd item = 0
     \<and> MovieShow.top10 item = 0 \<and> MovieShow.top250 item = 0
     \<and> MovieShow.facts item = [] \<and> allNamesString item = [] \<and> MovieShow.enName item = []
     \<and> MovieShow.networks item = [] \<and> networksLinks item = []
     \<and> MovieShow.productionCompanies item = [] \<and> productionCompaniesLinks item = []
     \<and> MovieShow.distributor item = [] \<and> MovieShow.distributorRelease item = []
     \<and> MovieShow.sequelsAndPrequels item = [] \<and> sequelsAndPrequelsLinks item = []"
proof -
  have c: "([] = str ''completed'') = False"
    by (simp add: str_def)
  have e: "cleanTextForMetadata [] = []"
    by (simp add: cleanTextForMetadata_def)
  have o: "one SHORT_VALUE x = (if nonBlank x then [cleanTextForMetadata x] else [])" for x
    by (simp add: one_eq formatItem_def)
  show ?thesis
    by (simp add: createMovieShowFrom_def minimalInfo_def Let_def l one_Nil many_Nil
        kinopoiskUrl_value orEmpty_def orZero_def formatDate_def calculateSeasonsData_def
        extractPeople_def extractCompanies_def processNames_def processFacts_def
        createImageLink_def c e o)
qed

lemma facts_field:
  "createMovieShowFrom pf fullInfo = Inr item \<Longrightarrow>
   MovieShow.facts item =
     many LONG_TEXT
       (processFacts (case KinopoiskFullInfo.facts fullInfo of None \<Rightarrow> [] | Some fs \<Rightarrow> fs))"
  by (auto simp: createMovieShowFrom_def Let_def split: option.splits)

lemma relational_fields:
  assumes "createMovieShowFrom pf fullInfo = Inr item"
  shows "MovieShow.genres item = many SHORT_VALUE
           (map (\<lambda>g. capitalizeFirstLetter pf (KinopoiskSimpleItem.name g)) (KinopoiskFullInfo.genres fullInfo))"
    and "genresLinks item = many LINK
           (map (\<lambda>g. capitalizeFirstLetter pf (KinopoiskSimpleItem.name g)) (KinopoiskFullInfo.genres fullInfo))"
    and "MovieShow.countries item = many SHORT_VALUE
           (map KinopoiskSimpleItem.name (KinopoiskFullInfo.countries fullInfo))"
    and "countriesLinks item = many LINK
           (map KinopoiskSimpleItem.name (KinopoiskFullInfo.countries fullInfo))"
    and "director item = many SHORT_VALUE (directors (extractPeople (persons fullInfo)))"
    and "directorsLinks item = many LINK (directors (extractPeople (persons fullInfo)))"
    and "MovieShow.actors item = many SHORT_VALUE (People.actors (extractPeople (persons fullInfo)))"
    and "actorsLinks item = many LINK (People.actors (extractPeople (persons fullInfo)))"
    and "MovieShow.writers item = many SHORT_VALUE (People.writers (extractPeople (persons fullInfo)))"
    and "writersLinks item = many LINK (People.writers (extractPeople (persons fullInfo)))"
    and "MovieShow.producers item = many SHORT_VALUE (People.producers (extractPeople (persons fullInfo)))"
    and "producersLinks item = many LINK (People.producers (extractPeople (persons fullInfo)))"
    and "MovieShow.networks item = many SHORT_VALUE (Companies.networks (extractCompanies fullInfo))"
    and "networksLinks item = many LINK (Companies.networks (extractCompanies fullInfo))"
    and "MovieShow.productionCompanies item
           = many SHORT_VALUE (Companies.productionCompanies (extractCompanies fullInfo))"
    and "productionCompaniesLinks item
           = many LINK (Companies.productionCompanies (extractCompanies fullInfo))"
    and "MovieShow.sequelsAndPrequels item
           = many SHORT_VALUE (Companies.sequelsAndPrequels (extractCompanies fullInfo))"
    and "sequelsAndPrequelsLinks item
           = many LINK (Companies.sequelsAndPrequels (extractCompanies fullInfo))"
    and "posterImageLink item
           = createImageLink (orEmpty (Option.bind (poster fullInfo) KinopoiskImageUrl.url))"
    and "coverImageLink item
           = createImageLink (orEmpty (Option.bind (backdrop fullInfo) KinopoiskImageUrl.url))"
    and "logoImageLink item
           = createImageLink (orEmpty (Option.bind (logo fullInfo) KinopoiskImageUrl.url))"
  using assms by (auto simp: createMovieShowFrom_def Let_def split: option.splits)

subsection \<open>People\<close>

lemma str_neq:
  "str ''director'' \<noteq> str ''actor''" "str ''director'' \<noteq> str ''writer''"
  "str ''director'' \<noteq> str ''producer''" "str ''actor'' \<noteq> str ''writer''"
  "str ''actor'' \<noteq> str ''producer''" "str ''writer'' \<noteq> str ''producer''"
  by (simp_all add: str_def)

lemma addPerson_step:
  "directors (addPerson acc p)
     = directors acc @ (if hasProfession (str ''director'') p then [KinopoiskPerson.name p] else [])"
  "People.actors (addPerson acc p)
     = People.actors acc @ (if hasProfession (str ''actor'') p then [KinopoiskPerson.name p] else [])"
  "People.writers (addPerson acc p)
     = People.writers acc @ (if hasProfession (str ''writer'') p then [KinopoiskPerson.name p] else [])"
  "People.producers (addPerson acc p)
     = People.producers acc @ (if hasProfession (str ''producer'') p then [KinopoiskPerson.name p] else [])"
proof -
  have n: "str ''director'' \<noteq> []" "str ''actor'' \<noteq> []" "str ''writer'' \<noteq> []" "str ''producer'' \<noteq> []"
    by (simp_all add: str_def)
  show "directors (addPerson acc p)
     = directors acc @ (if hasProfession (str ''director'') p then [KinopoiskPerson.name p] else [])"
    using n str_neq by (auto simp: addPerson_def hasProfession_def)
  show "People.actors (addPerson acc p)
     = People.actors acc @ (if hasProfession (str ''actor'') p then [KinopoiskPerson.name p] else [])"
    using n str_neq by (auto simp: addPerson_def hasProfession_def)
  show "People.writers (addPerson acc p)
     = People.writers acc @ (if hasProfession (str ''writer'') p then [KinopoiskPerson.name p] else [])"
    using n str_neq by (auto simp: addPerson_def hasProfession_def)
  show "People.producers (addPerson acc p)
     = People.producers acc @ (if hasProfession (str ''producer'') p then [KinopoiskPerson.name p] else [])"
    using n str_neq by (auto simp: addPerson_def hasProfession_def)
qed

lemma foldl_addPerson:
  "directors (foldl addPerson acc ps)
     = directors acc @ map KinopoiskPerson.name (filter (hasProfession (str ''director'')) ps)
   \<and> People.actors (foldl addPerson acc ps)
     = People.actors acc @ map KinopoiskPerson.name (filter (hasProfession (str ''actor'')) ps)
   \<and> People.writers (foldl addPerson acc ps)
     = People.writers acc @ map KinopoiskPerson.name (filter (hasProfession (str ''writer'')) ps)
   \<and> People.producers (foldl addPerson acc ps)
     = People.producers acc @ map KinopoiskPerson.name (filter (hasProfession (str ''producer'')) ps)"
proof (induction ps arbitrary: acc)
  case Nil
  show ?case by simp
next
  case (Cons p ps)
  show ?case
    by (simp add: Cons.IH addPerson_step)
qed

lemma extractPeople_eq:
  "directors (extractPeople ps) = map KinopoiskPerson.name (filter (hasProfession (str ''director'')) ps)"
  "People.actors (extractPeople ps) = map KinopoiskPerson.name (filter (hasProfession (str ''actor'')) ps)"
  "People.writers (extractPeople ps) = map KinopoiskPerson.name (filter (hasProfession (str ''writer'')) ps)"
  "People.producers (extractPeople ps) = map KinopoiskPerson.name (filter (hasProfession (str ''producer'')) ps)"
  by (simp_all add: extractPeople_def foldl_addPerson)

subsection \<open>formatArray\<close>

lemma length_processFacts: "length (processFacts fs) \<le> 5"
  by (simp add: processFacts_def MAX_FACTS_COUNT_def)

lemma length_formatArray:
  "length (formatArray xs formatType maxItems) = min maxItems (length (filter keepItem xs))"
  by (simp add: formatArray_def min.commute)

lemma formatArray_all_blank:
  assumes "\<forall>item \<in> set xs. case item of None \<Rightarrow> True | Some s \<Rightarrow> \<forall>c \<in> set s. isWhiteSpace c"
  shows "formatArray xs formatType maxItems = []"
proof -
  have "\<not> keepItem item" if "item \<in> set xs" for item
    using assms that by (cases item) (auto simp: keepItem_iff)
  then have "filter keepItem xs = []"
    by (simp add: filter_empty_conv)
  then show ?thesis
    by (simp add: formatArray_def)
qed

text \<open>
  C4. \<^verbatim>\<open>formatArray\<close> drops the entries that are null, empty or white space only, and
  then truncates to \<^verbatim>\<open>maxItems\<close>: the length of its result is the smaller of
  \<^verbatim>\<open>maxItems\<close> and the number of entries kept, so it is at most \<^verbatim>\<open>maxItems\<close>, at
  most 15 with the default, and the result is empty when every entry is null, empty or
  white space. The facts reach \<^verbatim>\<open>formatArray\<close> already cut to five by
  \<^verbatim>\<open>processFacts\<close>, so the \<^verbatim>\<open>facts\<close> field of a normalized record has at most five
  entries.
\<close>

theorem formatArray_length_bound:
  "length (formatArray xs formatType maxItems) = min maxItems (length (filter keepItem xs))
   \<and> length (formatArray xs formatType maxItems) \<le> maxItems
   \<and> length (formatArray xs formatType MAX_ARRAY_ITEMS) \<le> 15
   \<and> ((\<forall>item \<in> set xs. case item of None \<Rightarrow> True | Some s \<Rightarrow> \<forall>c \<in> set s. isWhiteSpace c)
        \<longrightarrow> formatArray xs formatType maxItems = [])
   \<and> (createMovieShowFrom pf fullInfo = Inr item \<longrightarrow> length (MovieShow.facts item) \<le> 5)"
proof -
  have l: "length (formatArray ys ft m) = min m (length (filter keepItem ys))" for ys ft m
    by (rule length_formatArray)
  have f: "length (MovieShow.facts item) \<le> 5" if "createMovieShowFrom pf fullInfo = Inr item"
  proof -
    have "length (MovieShow.facts item) \<le>
          length (processFacts (case KinopoiskFullInfo.facts fullInfo of None \<Rightarrow> [] | Some fs \<Rightarrow> fs))"
      by (simp add: facts_field [OF that] many_def l min.coboundedI2 filter_map)
    also have "\<dots> \<le> 5"
      by (rule length_processFacts)
    finally show ?thesis .
  qed
  show ?thesis
    using formatArray_all_blank [of xs formatType maxItems] f
    by (simp add: l MAX_ARRAY_ITEMS_def)
qed

lemma infoWithFacts_result:
  "\<exists>item. createMovieShowFrom examplePlatform infoWithFacts = Inr item"
  by (simp add: createMovieShowFrom_def Let_def infoWithFacts_def minimalInfo_def
      translateType_def TYPE_TRANSLATIONS_def str_def)

theorem formatArray_length_bound_witness:
  "list_all isWhiteSpace (str ''  '')
   \<and> formatArray [Some (str ''  ''), None, Some []] URL 15 = []
   \<and> (\<exists>item. createMovieShowFrom examplePlatform infoWithFacts = Inr item
         \<and> length (MovieShow.facts item) \<le> 5)"
proof -
  have b: "\<forall>item \<in> set [Some (str ''  ''), None, Some []].
       case item of None \<Rightarrow> True | Some s \<Rightarrow> \<forall>c \<in> set s. isWhiteSpace c"
    by (simp add: str_def isWhiteSpace_def)
  obtain item where i: "createMovieShowFrom examplePlatform infoWithFacts = Inr item"
    using infoWithFacts_result by blast
  have w: "list_all isWhiteSpace (str ''  '')"
    by (simp add: str_def isWhiteSpace_def)
  from b i w
    formatArray_length_bound [of "[Some (str ''  ''), None, Some []]" URL 15
      examplePlatform infoWithFacts item]
  show ?thesis by blast
qed

subsection \<open>Facts about the examples\<close>

lemma translateType_movie: "translateType (str ''movie'') = Some [1060, 1080, 1083, 1100, 1084]"
  by code_simp

lemma translateType_constructor: "translateType (str ''constructor'') = None"
  by code_simp

lemma example_url: "str ''https://www.kinopoisk.ru/film/'' @ numberToString examplePlatform 1 @ str ''/''
    = str ''https://www.kinopoisk.ru/film/1/''"
  by code_simp

lemma exampleMinimal_type:
  "translateType (KinopoiskFullInfo.type exampleMinimal) = Some [1060, 1080, 1083, 1100, 1084]"
  by (simp add: exampleMinimal_def minimalInfo_def translateType_movie)

subsection \<open>A raw record with every optional property absent\<close>

text \<open>
  C1, as the code has it. For a raw record with the required properties only, whose
  \<^verbatim>\<open>type\<close> does not name a property inherited from \<^verbatim>\<open>Object.prototype\<close> (so that
  the type label is a string), \<^verbatim>\<open>createMovieShowFrom\<close> returns a record and raises
  nothing. In it \<^verbatim>\<open>id\<close>, \<^verbatim>\<open>year\<close> and \<^verbatim>\<open>isSeries\<close> are the raw values;
  \<^verbatim>\<open>name\<close>, \<^verbatim>\<open>alternativeName\<close> and \<^verbatim>\<open>type\<close> hold the cleaned title, alternative
  title and type label, or nothing when that string is blank; \<^verbatim>\<open>nameForFile\<close> and
  \<^verbatim>\<open>alternativeNameForFile\<close> are the cleaned titles; \<^verbatim>\<open>kinopoiskUrl\<close> is the one
  film address built from the id; every other sequence field is empty, every other
  number is 0, \<^verbatim>\<open>isComplete\<close> is false and \<^verbatim>\<open>enNameForFile\<close> is the empty string.
\<close>

theorem createMovieShowFrom_all_optional_absent:
  assumes "translateType t = Some label"
  shows "\<exists>item. createMovieShowFrom pf (minimalInfo i n a t y s) = Inr item
     \<and> MovieShow.id item = i \<and> MovieShow.year item = y \<and> MovieShow.isSeries item = s
     \<and> MovieShow.name item = (if nonBlank n then [cleanTextForMetadata n] else [])
     \<and> MovieShow.alternativeName item = (if nonBlank a then [cleanTextForMetadata a] else [])
     \<and> MovieShow.type item = (if nonBlank label then [cleanTextForMetadata label] else [])
     \<and> nameForFile item = cleanTextForMetadata n
     \<and> alternativeNameForFile item = cleanTextForMetadata a
     \<and> enNameForFile item = []
     \<and> kinopoiskUrl item = [str ''https://www.kinopoisk.ru/film/'' @ numberToString pf i @ str ''/'']
     \<and> MovieShow.description item = [] \<and> MovieShow.shortDescription item = []
     \<and> posterUrl item = [] \<and> coverUrl item = [] \<and> logoUrl item = []
     \<and> posterImageLink item = [] \<and> coverImageLink item = [] \<and> logoImageLink item = []
     \<and> MovieShow.genres item = [] \<and> genresLinks item = []
     \<and> MovieShow.countries item = [] \<and> countriesLinks item = []
     \<and> MovieShow.subType item = []
     \<and> director item = [] \<and> directorsLinks item = []
     \<and> MovieShow.actors item = [] \<and> actorsLinks item = []
     \<and> MovieShow.writers item = [] \<and> writersLinks item = []
     \<and> MovieShow.producers item = [] \<and> producersLinks item = []
     \<and> MovieShow.movieLength item = 0 \<and> MovieShow.seriesLength item = 0
     \<and> MovieShow.totalSeriesLength item = 0 \<and> isComplete item = False
     \<and> seasonsCount item = 0 \<and> seriesInSeasonCount item = 0
     \<and> ratingKp item = 0 \<and> ratingImdb item = 0 \<and> ratingFilmCritics item = 0
     \<and> ratingRussianFilmCritics item = 0
     \<and> votesKp item = 0 \<and> votesImdb item = 0 \<and> votesFilmCritics item = 0
     \<and> votesRussianFilmCritics item = 0
     \<and> imdbId item = [] \<and> tmdbId item = 0 \<and> kpHDId item = []
     \<and> MovieShow.slogan item = [] \<and> MovieShow.ageRating item = 0 \<and> MovieShow.ratingMpaa item = []
     \<and> budgetValue item = 0 \<and> budgetCurrency item = []
     \<and> feesWorldValue item = 0 \<and> feesWorldCurrency item = []
     \<and> feesRussiaValue item = 0 \<and> feesRussiaCurrency item = []
     \<and> feesUsaValue item = 0 \<and> feesUsaCurrency item = []
     \<and> premiereWorld item = [] \<and> premiereRussia item = []
     \<and> premiereDigital item = [] \<and> premiereCinema item = []
     \<and> releaseYearsStart item = 0 \<and> releaseYearsEnd item = 0
     \<and> MovieShow.top10 item = 0 \<and> MovieShow.top250 item = 0
     \<and> MovieShow.facts item = [] \<and> allNamesString item = [] \<and> MovieShow.enName item = []
     \<and> MovieShow.networks item = [] \<and> networksLinks item = []
     \<and> MovieShow.productionCompanies item = [] \<and> productionCompaniesLinks item = []
     \<and> MovieShow.distributor item = [] \<and> MovieShow.distributorRelease item = []
     \<and> MovieShow.sequelsAndPrequels item = [] \<and> sequelsAndPrequelsLinks item = []"
  using assms by (rule minimal_result)

theorem createMovieShowFrom_all_optional_absent_witness:
  "translateType (str ''movie'') = Some [1060, 1080, 1083, 1100, 1084]
   \<and> (\<exists>item. createMovieShowFrom examplePlatform exampleMinimal = Inr item
         \<and> kinopoiskUrl item = [str ''https://www.kinopoisk.ru/film/1/'']
         \<and> MovieShow.genres item = [] \<and> ratingKp item = 0 \<and> isComplete item = False)"
  using createMovieShowFrom_all_optional_absent [OF translateType_movie, of examplePlatform 1
      "str ''A''" "str ''B''" 2010 False]
    translateType_movie example_url
  unfolding exampleMinimal_def by auto

text \<open>
  The claim as written fails on the example record: the sequence field
  \<^verbatim>\<open>kinopoiskUrl\<close> is not empty and the numbers \<^verbatim>\<open>id\<close> and \<^verbatim>\<open>year\<close> are not 0;
  and with the type \<^verbatim>\<open>constructor\<close> the call raises a \<^verbatim>\<open>TypeError\<close>.
\<close>

theorem createMovieShowFrom_all_optional_absent_counterexample:
  "\<not> isl (createMovieShowFrom examplePlatform exampleMinimal)
   \<and> kinopoiskUrl (projr (createMovieShowFrom examplePlatform exampleMinimal))
       = [str ''https://www.kinopoisk.ru/film/1/'']
   \<and> kinopoiskUrl (projr (createMovieShowFrom examplePlatform exampleMinimal)) \<noteq> []
   \<and> MovieShow.id (projr (createMovieShowFrom examplePlatform exampleMinimal)) = 1
   \<and> MovieShow.year (projr (createMovieShowFrom examplePlatform exampleMinimal)) = 2010
   \<and> createMovieShowFrom examplePlatform
        (minimalInfo 1 (str ''A'') (str ''B'') (str ''constructor'') 2010 False) = Inl TypeError"
proof -
  obtain item where i: "createMovieShowFrom examplePlatform exampleMinimal = Inr item"
    and u: "kinopoiskUrl item
       = [str ''https://www.kinopoisk.ru/film/'' @ numberToString examplePlatform 1 @ str ''/'']"
    and d: "MovieShow.id item = 1" and y: "MovieShow.year item = 2010"
    using minimal_result [OF translateType_movie, of examplePlatform 1 "str ''A''" "str ''B''" 2010 False]
    unfolding exampleMinimal_def by blast
  have e: "createMovieShowFrom examplePlatform
        (minimalInfo 1 (str ''A'') (str ''B'') (str ''constructor'') 2010 False) = Inl TypeError"
    by (rule createMovieShowFrom_TypeError) (simp add: minimalInfo_def translateType_constructor)
  show ?thesis
    using i u d y e example_url by simp
qed

subsection \<open>Genres\<close>

lemma hd_trim:
  assumes "s \<noteq> []" "\<not> isWhiteSpace (hd s)"
  shows "hd (trim s) = hd s"
proof -
  from assms have a: "dropWhile isWhiteSpace s = s"
    by (cases s) auto
  let ?v = "dropWhile isWhiteSpace (rev s)"
  have v: "?v \<noteq> []"
  proof
    assume "?v = []"
    then have "\<forall>x \<in> set (rev s). isWhiteSpace x" by simp
    with assms show False by (cases s) auto
  qed
  have "last ?v = last (rev s)" using v by (rule last_dropWhile)
  also have "\<dots> = hd s" using assms(1) by (simp add: last_rev)
  finally have "hd (rev ?v) = hd s" using v by (simp add: hd_rev)
  then show ?thesis by (simp add: trim_def a)
qed

lemma hd_cleanTextForMetadata:
  assumes "u \<noteq> 58" "\<not> isWhiteSpace u"
  shows "hd (cleanTextForMetadata (u # rest)) = u"
proof -
  have "filter (\<lambda>c. c \<noteq> 58) (u # rest) = u # filter (\<lambda>c. c \<noteq> 58) rest"
    using assms(1) by simp
  then have "hd (trim (filter (\<lambda>c. c \<noteq> 58) (u # rest))) = u"
    using hd_trim [of "u # filter (\<lambda>c. c \<noteq> 58) rest"] assms(2) by simp
  then show ?thesis by (simp add: cleanTextForMetadata_def)
qed

text \<open>
  C10, as the code has it. Every genre name goes through \<^verbatim>\<open>capitalizeFirstLetter\<close>,
  which upper-cases its first code unit and keeps the rest, and only then is cleaned
  (colons removed, the result trimmed): every entry of \<^verbatim>\<open>genres\<close>, and the name
  embedded in every entry of \<^verbatim>\<open>genresLinks\<close>, is the cleaned capitalized name. The
  entry begins with the upper-cased character when that character is neither a colon nor
  white space. No other relational family is capitalized: the entries of countries, of
  the people of each profession, of networks, of production companies and of related
  titles, plain and as links, are the cleaned names as the raw record has them.
\<close>

theorem genres_capitalized_then_cleaned:
  assumes "createMovieShowFrom pf fullInfo = Inr item"
  shows "capitalizeFirstLetter pf [] = []
     \<and> capitalizeFirstLetter pf (c # cs) = toUpperCase pf [c] @ cs
     \<and> (toUpperCase pf [c] = u # us \<and> u \<noteq> 58 \<and> \<not> isWhiteSpace u
          \<longrightarrow> hd (cleanTextForMetadata (capitalizeFirstLetter pf (c # cs))) = u)
     \<and> MovieShow.genres item
         = map cleanTextForMetadata (take 15 (filter nonBlank
             (map (\<lambda>g. capitalizeFirstLetter pf (KinopoiskSimpleItem.name g))
                (KinopoiskFullInfo.genres fullInfo))))
     \<and> genresLinks item
         = map (\<lambda>n. str ''\"[['' @ cleanTextForMetadata n @ str '']]\"'') (take 15 (filter nonBlank
             (map (\<lambda>g. capitalizeFirstLetter pf (KinopoiskSimpleItem.name g))
                (KinopoiskFullInfo.genres fullInfo))))
     \<and> MovieShow.countries item
         = map cleanTextForMetadata (take 15 (filter nonBlank
             (map KinopoiskSimpleItem.name (KinopoiskFullInfo.countries fullInfo))))
     \<and> countriesLinks item
         = map (\<lambda>n. str ''\"[['' @ cleanTextForMetadata n @ str '']]\"'') (take 15 (filter nonBlank
             (map KinopoiskSimpleItem.name (KinopoiskFullInfo.countries fullInfo))))
     \<and> director item
         = map cleanTextForMetadata (take 15 (filter nonBlank
             (map KinopoiskPerson.name (filter (hasProfession (str ''director'')) (persons fullInfo)))))
     \<and> directorsLinks item
         = map (\<lambda>n. str ''\"[['' @ cleanTextForMetadata n @ str '']]\"'') (take 15 (filter nonBlank
             (map KinopoiskPerson.name (filter (hasProfession (str ''director'')) (persons fullInfo)))))
     \<and> MovieShow.actors item
         = map cleanTextForMetadata (take 15 (filter nonBlank
             (map KinopoiskPerson.name (filter (hasProfession (str ''actor'')) (persons fullInfo)))))
     \<and> actorsLinks item
         = map (\<lambda>n. str ''\"[['' @ cleanTextForMetadata n @ str '']]\"'') (take 15 (filter nonBlank
             (map KinopoiskPerson.name (filter (hasProfession (str ''actor'')) (persons fullInfo)))))
     \<and> MovieShow.writers item
         = map cleanTextForMetadata (take 15 (filter nonBlank
             (map KinopoiskPerson.name (filter (hasProfession (str ''writer'')) (persons fullInfo)))))
     \<and> writersLinks item
         = map (\<lambda>n. str ''\"[['' @ cleanTextForMetadata n @ str '']]\"'') (take 15 (filter nonBlank
             (map KinopoiskPerson.name (filter (hasProfession (str ''writer'')) (persons fullInfo)))))
     \<and> MovieShow.producers item
         = map cleanTextForMetadata (take 15 (filter nonBlank
             (map KinopoiskPerson.name (filter (hasProfession (str ''producer'')) (persons fullInfo)))))
     \<and> producersLinks item
         = map (\<lambda>n. str ''\"[['' @ cleanTextForMetadata n @ str '']]\"'') (take 15 (filter nonBlank
             (map KinopoiskPerson.name (filter (hasProfession (str ''producer'')) (persons fullInfo)))))
     \<and> MovieShow.networks item
         = map cleanTextForMetadata (take 15 (filter nonBlank
             (case Option.bind (KinopoiskFullInfo.networks fullInfo) items of
                None \<Rightarrow> [] | Some ns \<Rightarrow> map KinopoiskSimpleItem.name ns)))
     \<and> networksLinks item
         = map (\<lambda>n. str ''\"[['' @ cleanTextForMetadata n @ str '']]\"'') (take 15 (filter nonBlank
             (case Option.bind (KinopoiskFullInfo.networks fullInfo) items of
                None \<Rightarrow> [] | Some ns \<Rightarrow> map KinopoiskSimpleItem.name ns)))
     \<and> MovieShow.productionCompanies item
         = map cleanTextForMetadata (take 15 (filter nonBlank
             (case KinopoiskFullInfo.productionCompanies fullInfo of
                None \<Rightarrow> [] | Some cs \<Rightarrow> map KinopoiskProductionCompany.name cs)))
     \<and> productionCompaniesLinks item
         = map (\<lambda>n. str ''\"[['' @ cleanTextForMetadata n @ str '']]\"'') (take 15 (filter nonBlank
             (case KinopoiskFullInfo.productionCompanies fullInfo of
                None \<Rightarrow> [] | Some cs \<Rightarrow> map KinopoiskProductionCompany.name cs)))
     \<and> MovieShow.sequelsAndPrequels item
         = map cleanTextForMetadata (take 15 (filter nonBlank
             (case KinopoiskFullInfo.sequelsAndPrequels fullInfo of
                None \<Rightarrow> [] | Some ms \<Rightarrow> map KinopoiskRelatedMovie.name ms)))
     \<and> sequelsAndPrequelsLinks item
         = map (\<lambda>n. str ''\"[['' @ cleanTextForMetadata n @ str '']]\"'') (take 15 (filter nonBlank
             (case KinopoiskFullInfo.sequelsAndPrequels fullInfo of
                None \<Rightarrow> [] | Some ms \<Rightarrow> map KinopoiskRelatedMovie.name ms)))"
proof -
  have s: "formatItem SHORT_VALUE = cleanTextForMetadata"
    by (rule ext) (simp add: formatItem_def)
  have l: "formatItem LINK = (\<lambda>n. str ''\"[['' @ cleanTextForMetadata n @ str '']]\"'')"
    by (rule ext) (simp add: formatItem_def)
  have n: "Companies.networks (extractCompanies fullInfo)
      = filter nonBlank (case Option.bind (KinopoiskFullInfo.networks fullInfo) items of
                None \<Rightarrow> [] | Some ns \<Rightarrow> map KinopoiskSimpleItem.name ns)"
    by (simp add: extractCompanies_def split: option.splits)
  have p: "Companies.productionCompanies (extractCompanies fullInfo)
      = filter nonBlank (case KinopoiskFullInfo.productionCompanies fullInfo of
                None \<Rightarrow> [] | Some cs \<Rightarrow> map KinopoiskProductionCompany.name cs)"
    by (simp add: extractCompanies_def split: option.splits)
  have q: "Companies.sequelsAndPrequels (extractCompanies fullInfo)
      = filter nonBlank (case KinopoiskFullInfo.sequelsAndPrequels fullInfo of
                None \<Rightarrow> [] | Some ms \<Rightarrow> map KinopoiskRelatedMovie.name ms)"
    by (simp add: extractCompanies_def split: option.splits)
  have h: "hd (cleanTextForMetadata (capitalizeFirstLetter pf (c # cs))) = u"
    if "toUpperCase pf [c] = u # us \<and> u \<noteq> 58 \<and> \<not> isWhiteSpace u"
    using that hd_cleanTextForMetadata [of u "us @ cs"] by (simp add: capitalizeFirstLetter_def)
  have r: "capitalizeFirstLetter pf [] = []
     \<and> capitalizeFirstLetter pf (c # cs) = toUpperCase pf [c] @ cs"
    by (simp add: capitalizeFirstLetter_def)
  show ?thesis
    using h r
    by (simp add: relational_fields [OF assms] many_eq s l n p q extractPeople_eq)
qed

lemma infoWithGenres_type:
  "translateType (KinopoiskFullInfo.type infoWithGenres) = Some [1060, 1080, 1083, 1100, 1084]"
  by (simp add: infoWithGenres_def exampleMinimal_def minimalInfo_def translateType_movie)

lemma infoWithGenres_genres:
  "map cleanTextForMetadata (take 15 (filter nonBlank
             (map (\<lambda>g. capitalizeFirstLetter examplePlatform (KinopoiskSimpleItem.name g))
                (KinopoiskFullInfo.genres infoWithGenres)))) = [str ''Drama'', str ''Sci-fi space'']"
proof -
  have g: "KinopoiskFullInfo.genres infoWithGenres
      = [\<lparr>KinopoiskSimpleItem.name = str ''drama''\<rparr>,
         \<lparr>KinopoiskSimpleItem.name = str ''sci-fi: space ''\<rparr>]"
    by (simp add: infoWithGenres_def exampleMinimal_def minimalInfo_def)
  have t: "toUpperCase examplePlatform = map (\<lambda>c. if 97 \<le> c \<and> c \<le> 122 then c - 32 else c)"
    by (simp add: examplePlatform_def)
  have "map cleanTextForMetadata (take 15 (filter nonBlank
          [capitalizeFirstLetter examplePlatform (str ''drama''),
           capitalizeFirstLetter examplePlatform (str ''sci-fi: space '')]))
        = [str ''Drama'', str ''Sci-fi space'']"
    unfolding capitalizeFirstLetter_def t by code_simp
  then show ?thesis by (simp add: g)
qed

lemma infoWithGenres_countries:
  "map cleanTextForMetadata (take 15 (filter nonBlank
             (map KinopoiskSimpleItem.name (KinopoiskFullInfo.countries infoWithGenres)))) = [str ''usa'']"
proof -
  have g: "KinopoiskFullInfo.countries infoWithGenres = [\<lparr>KinopoiskSimpleItem.name = str ''usa''\<rparr>]"
    by (simp add: infoWithGenres_def exampleMinimal_def minimalInfo_def)
  have "map cleanTextForMetadata (take 15 (filter nonBlank [str ''usa''])) = [str ''usa'']"
    by code_simp
  then show ?thesis by (simp add: g)
qed

lemma example_first: "toUpperCase examplePlatform [100] = 68 # [] \<and> (68::int) \<noteq> 58 \<and> \<not> isWhiteSpace 68
   \<and> 100 # str ''rama'' = str ''drama''"
  by code_simp


theorem genres_capitalized_then_cleaned_witness:
  "\<exists>item. createMovieShowFrom examplePlatform infoWithGenres = Inr item
     \<and> MovieShow.genres item = [str ''Drama'', str ''Sci-fi space'']
     \<and> MovieShow.countries item = [str ''usa'']
     \<and> hd (cleanTextForMetadata (capitalizeFirstLetter examplePlatform (str ''drama''))) = 68"
proof -
  obtain item where i: "createMovieShowFrom examplePlatform infoWithGenres = Inr item"
    using createMovieShowFrom_Inr [OF infoWithGenres_type] by blast
  note th = genres_capitalized_then_cleaned [OF i, of 100 "str ''rama''" 68 "[]"]
  have g: "MovieShow.genres item = [str ''Drama'', str ''Sci-fi space'']"
    using th infoWithGenres_genres by simp
  have c: "MovieShow.countries item = [str ''usa'']"
    using th infoWithGenres_countries by simp
  have "hd (cleanTextForMetadata (capitalizeFirstLetter examplePlatform (100 # str ''rama''))) = 68"
    using th example_first by blast
  then have h: "hd (cleanTextForMetadata (capitalizeFirstLetter examplePlatform (str ''drama''))) = 68"
    using example_first by simp
  from i g c h show ?thesis by blast
qed

text \<open>
  The claim as written fails where a genre name begins with a blank or a colon: the
  entry then begins with the next character, which is not upper-cased.
\<close>

theorem genres_capitalized_counterexample:
  "\<not> isl (createMovieShowFrom examplePlatform infoOddGenres)
   \<and> MovieShow.genres (projr (createMovieShowFrom examplePlatform infoOddGenres))
       = [str ''drama'', str ''comedy'', str ''Action'']"
  by code_simp


subsection \<open>Image references\<close>

lemma startsWith_http_nonblank:
  assumes "startsWith p (str ''http'')"
  shows "p \<noteq> [] \<and> trim p \<noteq> []"
proof -
  from assms obtain r where p: "p = 104 # r"
    by (cases p) (auto simp: startsWith_def str_def)
  have "\<not> isWhiteSpace 104" by (simp add: isWhiteSpace_def)
  then have "\<not> (\<forall>c \<in> set p. isWhiteSpace c)" using p by auto
  then show ?thesis using p by (simp add: trim_eq_Nil_iff)
qed

lemma lastSegment_append: "47 \<notin> set f \<Longrightarrow> lastSegment (d @ 47 # f) = f"
proof -
  assume a: "47 \<notin> set f"
  then have "takeWhile (\<lambda>c. c \<noteq> 47) (rev f @ 47 # rev d) = rev f"
    by (subst takeWhile_append2) auto
  then show ?thesis by (simp add: lastSegment_def)
qed

text \<open>
  C3, as the code has it. Both \<^verbatim>\<open>createImageLink\<close> functions return the empty
  sequence for an empty or white-space-only path, and the one entry \<^verbatim>\<open>![](path)\<close> for
  a path that begins with \<^verbatim>\<open>http\<close>. For any other path the normalizer
  (\<^verbatim>\<open>DataFormatter.createImageLink\<close>, which fills \<^verbatim>\<open>posterImageLink\<close>,
  \<^verbatim>\<open>coverImageLink\<close> and \<^verbatim>\<open>logoImageLink\<close>) embeds the path as it is given, and the
  image step (\<^verbatim>\<open>createImageLink\<close> of \<^verbatim>\<open>imageUtils\<close>) embeds the text after the last
  slash, or the whole path when nothing follows the last slash.
\<close>

theorem createImageLink_cases:
  "((\<forall>c \<in> set p. isWhiteSpace c)
      \<longrightarrow> createImageLink p = [] \<and> createImageLink_imageUtils p = [])
   \<and> ((\<exists>c \<in> set p. \<not> isWhiteSpace c) \<and> \<not> startsWith p (str ''http'')
      \<longrightarrow> createImageLink p = [str ''![['' @ p @ str '']]'']
        \<and> createImageLink_imageUtils p
            = [str ''![['' @ (if lastSegment p \<noteq> [] then lastSegment p else p) @ str '']]''])
   \<and> (47 \<notin> set f \<longrightarrow> lastSegment (d @ 47 # f) = f)
   \<and> (startsWith p (str ''http'')
      \<longrightarrow> createImageLink p = [str ''![]('' @ p @ str '')'']
        \<and> createImageLink_imageUtils p = [str ''![]('' @ p @ str '')''])
   \<and> (createMovieShowFrom pf fullInfo = Inr item
      \<longrightarrow> posterImageLink item
            = createImageLink (orEmpty (Option.bind (poster fullInfo) KinopoiskImageUrl.url))
        \<and> coverImageLink item
            = createImageLink (orEmpty (Option.bind (backdrop fullInfo) KinopoiskImageUrl.url))
        \<and> logoImageLink item
            = createImageLink (orEmpty (Option.bind (logo fullInfo) KinopoiskImageUrl.url)))"
proof -
  have a: "createImageLink p = [] \<and> createImageLink_imageUtils p = []"
    if "\<forall>c \<in> set p. isWhiteSpace c"
    using that by (simp add: createImageLink_def createImageLink_imageUtils_def trim_eq_Nil_iff)
  have b: "createImageLink p = [str ''![['' @ p @ str '']]'']
        \<and> createImageLink_imageUtils p
            = [str ''![['' @ (if lastSegment p \<noteq> [] then lastSegment p else p) @ str '']]'']"
    if "\<exists>c \<in> set p. \<not> isWhiteSpace c" "\<not> startsWith p (str ''http'')"
  proof -
    from that(1) have "p \<noteq> []" "trim p \<noteq> []"
      by (auto simp: trim_eq_Nil_iff)
    with that(2) show ?thesis
      by (simp add: createImageLink_def createImageLink_imageUtils_def Let_def)
  qed
  have c: "createImageLink p = [str ''![]('' @ p @ str '')'']
        \<and> createImageLink_imageUtils p = [str ''![]('' @ p @ str '')'']"
    if "startsWith p (str ''http'')"
    using that startsWith_http_nonblank [OF that]
    by (simp add: createImageLink_def createImageLink_imageUtils_def)
  show ?thesis
    using a b c lastSegment_append [of f d] relational_fields(19-21) [of pf fullInfo item]
    by blast
qed

lemma example_local: "(\<exists>c \<in> set (str ''attachments/x.jpg''). \<not> isWhiteSpace c)
   \<and> \<not> startsWith (str ''attachments/x.jpg'') (str ''http'')
   \<and> lastSegment (str ''attachments/x.jpg'') = str ''x.jpg''
   \<and> str ''![['' @ str ''attachments/x.jpg'' @ str '']]'' = str ''![[attachments/x.jpg]]''
   \<and> str ''![['' @ str ''x.jpg'' @ str '']]'' = str ''![[x.jpg]]''
   \<and> str ''x.jpg'' \<noteq> []"
  by code_simp

lemma example_remote: "startsWith (str ''https://img.example/x.jpg'') (str ''http'')
   \<and> str ''![]('' @ str ''https://img.example/x.jpg'' @ str '')'' = str ''![](https://img.example/x.jpg)''"
  by code_simp

theorem createImageLink_cases_witness:
  "createImageLink (str ''   '') = []
   \<and> createImageLink_imageUtils (str ''   '') = []
   \<and> createImageLink (str ''attachments/x.jpg'') = [str ''![[attachments/x.jpg]]'']
   \<and> createImageLink_imageUtils (str ''attachments/x.jpg'') = [str ''![[x.jpg]]'']
   \<and> createImageLink (str ''https://img.example/x.jpg'') = [str ''![](https://img.example/x.jpg)'']
   \<and> createImageLink_imageUtils (str ''https://img.example/x.jpg'')
       = [str ''![](https://img.example/x.jpg)'']
   \<and> (\<exists>item. createMovieShowFrom examplePlatform exampleMinimal = Inr item
         \<and> posterImageLink item = [])"
proof -
  have w: "\<forall>c \<in> set (str ''   ''). isWhiteSpace c"
    by (simp add: str_def isWhiteSpace_def)
  obtain item where i: "createMovieShowFrom examplePlatform exampleMinimal = Inr item"
    using createMovieShowFrom_Inr [OF exampleMinimal_type] by blast
  have e: "createImageLink (orEmpty (Option.bind (poster exampleMinimal) KinopoiskImageUrl.url)) = []"
    by (simp add: exampleMinimal_def minimalInfo_def orEmpty_def createImageLink_def)
  have 1: "createImageLink (str ''   '') = [] \<and> createImageLink_imageUtils (str ''   '') = []"
    using w createImageLink_cases [of "str ''   ''" "[]" "[]" examplePlatform exampleMinimal item]
    by blast
  have 2: "createImageLink (str ''attachments/x.jpg'') = [str ''![[attachments/x.jpg]]'']
     \<and> createImageLink_imageUtils (str ''attachments/x.jpg'') = [str ''![[x.jpg]]'']"
    using example_local
      createImageLink_cases [of "str ''attachments/x.jpg''" "[]" "[]" examplePlatform exampleMinimal item]
    by simp
  have 3: "createImageLink (str ''https://img.example/x.jpg'') = [str ''![](https://img.example/x.jpg)'']
     \<and> createImageLink_imageUtils (str ''https://img.example/x.jpg'')
       = [str ''![](https://img.example/x.jpg)'']"
    using example_remote
      createImageLink_cases [of "str ''https://img.example/x.jpg''" "[]" "[]" examplePlatform exampleMinimal item]
    by simp
  have 4: "posterImageLink item = []"
    using i e createImageLink_cases [of "[]" "[]" "[]" examplePlatform exampleMinimal item]
    by simp
  from 1 2 3 4 i show ?thesis by blast
qed

text \<open>
  The claim as written fails for the normalizer: the local path
  \<^verbatim>\<open>attachments/x.jpg\<close> keeps its directory.
\<close>

theorem createImageLink_cases_counterexample:
  "createImageLink (str ''attachments/x.jpg'') = [str ''![[attachments/x.jpg]]'']
   \<and> createImageLink (str ''attachments/x.jpg'') \<noteq> [str ''![[x.jpg]]'']"
  by code_simp


subsection \<open>Dates\<close>

lemma isoDatePart_nonempty: "isoDatePart t \<noteq> []"
  by (simp add: isoDatePart_def str_def split: prod.splits)

lemma formatDate_outcomes:
  "formatDate pf None = []
   \<and> formatDate pf (Some []) = []
   \<and> (dateParse pf s = None \<longrightarrow> formatDate pf (Some s) = [])
   \<and> (dateParse pf s = Some t \<and> (getFullYear pf t < 1800 \<or> 2100 < getFullYear pf t)
        \<longrightarrow> formatDate pf (Some s) = [])
   \<and> (s \<noteq> [] \<and> dateParse pf s = Some t \<and> 1800 \<le> getFullYear pf t \<and> getFullYear pf t \<le> 2100
        \<longrightarrow> formatDate pf (Some s) = isoDatePart t \<and> formatDate pf (Some s) \<noteq> [])"
  using isoDatePart_nonempty [of t] by (auto simp: formatDate_def)

text \<open>
  C8 does not hold of the code. \<^verbatim>\<open>formatDate\<close> tests the year that
  \<^verbatim>\<open>getFullYear\<close> reads in local time and prints the date of \<^verbatim>\<open>toISOString\<close>,
  which is in UTC. Five hours behind UTC, the date \<^verbatim>\<open>1800-01-01\<close> is in the local
  year 1799 and gives the empty string, and the date \<^verbatim>\<open>2101-01-01\<close> is in the
  local year 2100 and is printed; with local time equal to UTC the first is printed and
  the second gives the empty string.
\<close>

theorem formatDate_local_year:
  "formatDate westPlatform (Some (str ''1800-01-01'')) = []
   \<and> formatDate westPlatform (Some (str ''2101-01-01'')) = str ''2101-01-01''
   \<and> formatDate examplePlatform (Some (str ''1800-01-01'')) = str ''1800-01-01''
   \<and> formatDate examplePlatform (Some (str ''2101-01-01'')) = []"
  by code_simp

subsection \<open>processImages\<close>

text \<open>
  C9. Whatever the settings and whatever \<^verbatim>\<open>downloadAndSaveImage\<close> returns or throws,
  the result of \<^verbatim>\<open>processImages\<close> is its input record with at most the fields
  \<^verbatim>\<open>posterImageLink\<close>, \<^verbatim>\<open>coverImageLink\<close> and \<^verbatim>\<open>logoImageLink\<close> replaced; with
  \<^verbatim>\<open>saveImagesLocally\<close> off it is the input record.
\<close>

theorem processImages_frame:
  "(\<exists>p c l. processImages env movieShow settings
       = movieShow\<lparr>posterImageLink := p, coverImageLink := c, logoImageLink := l\<rparr>)
   \<and> (\<not> saveImagesLocally settings \<longrightarrow> processImages env movieShow settings = movieShow)"
proof -
  define p where "p = (case processOne env movieShow settings (savePosterImage settings)
                         (posterUrl movieShow) (str ''poster'') of
                    None \<Rightarrow> posterImageLink movieShow | Some link \<Rightarrow> link)"
  define c where "c = (case processOne env movieShow settings (saveCoverImage settings)
                         (coverUrl movieShow) (str ''cover'') of
                    None \<Rightarrow> coverImageLink movieShow | Some link \<Rightarrow> link)"
  define l where "l = (case processOne env movieShow settings (saveLogoImage settings)
                         (logoUrl movieShow) (str ''logo'') of
                    None \<Rightarrow> logoImageLink movieShow | Some link \<Rightarrow> link)"
  have same: "movieShow = movieShow\<lparr>posterImageLink := posterImageLink movieShow,
      coverImageLink := coverImageLink movieShow, logoImageLink := logoImageLink movieShow\<rparr>"
    by simp
  have "processImages env movieShow settings
       = movieShow\<lparr>posterImageLink := p, coverImageLink := c, logoImageLink := l\<rparr>
     \<or> processImages env movieShow settings = movieShow"
    by (simp add: processImages_def Let_def p_def c_def l_def split: option.splits)
  then have "\<exists>p c l. processImages env movieShow settings
       = movieShow\<lparr>posterImageLink := p, coverImageLink := c, logoImageLink := l\<rparr>"
    using same by metis
  then show ?thesis
    by (simp add: processImages_def)
qed

theorem processImages_frame_witness:
  "processImages exampleImageEnv exampleShow (exampleSettings False) = exampleShow
   \<and> (\<exists>p c l. processImages exampleImageEnv exampleShow (exampleSettings True)
       = exampleShow\<lparr>posterImageLink := p, coverImageLink := c, logoImageLink := l\<rparr>)"
proof -
  have "\<not> saveImagesLocally (exampleSettings False)"
    by (simp add: exampleSettings_def)
  then show ?thesis
    using processImages_frame [of exampleImageEnv exampleShow "exampleSettings False"]
      processImages_frame [of exampleImageEnv exampleShow "exampleSettings True"]
    by blast
qed

subsection \<open>Stray tokens\<close>

lemma tokenRest_append:
  assumes "tokenRest s = Some r"
  shows "tokenRest (s @ x) = Some (r @ x)"
proof -
  from assms have sw: "startsWith s (str ''{{'')"
    by (simp add: tokenRest_def split: if_splits)
  then obtain s' where s: "s = 123 # 123 # s'"
    by (cases s; cases "tl s") (auto simp: startsWith_def str_def)
  from assms s have w: "takeWhile isWordChar s' \<noteq> []"
    and c: "startsWith (dropWhile isWordChar s') (str ''}}'')"
    and r: "r = drop 2 (dropWhile isWordChar s')"
    by (auto simp: tokenRest_def Let_def startsWith_def str_def split: if_splits)
  from c obtain q where d: "dropWhile isWordChar s' = 125 # 125 # q"
    by (cases "dropWhile isWordChar s'"; cases "tl (dropWhile isWordChar s')")
       (auto simp: startsWith_def str_def)
  have n: "\<not> isWordChar 125" by (simp add: isWordChar_def)
  have s': "s' = takeWhile isWordChar s' @ 125 # 125 # q"
    using takeWhile_dropWhile_id [of isWordChar s'] d by simp
  have t: "takeWhile isWordChar (s' @ x) = takeWhile isWordChar s'"
    by (subst s', simp only: append_assoc, subst takeWhile_append2)
       (auto dest: set_takeWhileD simp: n)
  have dd: "dropWhile isWordChar (s' @ x) = 125 # 125 # q @ x"
    by (subst s', simp only: append_assoc, subst dropWhile_append2)
       (auto dest: set_takeWhileD simp: n)
  show ?thesis
    using w r d by (simp add: tokenRest_def Let_def s startsWith_def str_def t dd)
qed

lemma tokenRest_token:
  assumes "w \<noteq> []" "list_all isWordChar w"
  shows "tokenRest (placeholder w @ b) = Some b"
proof -
  have n: "\<not> isWordChar 125" by (simp add: isWordChar_def)
  have t: "takeWhile isWordChar (w @ 125 # 125 # b) = w"
    using assms(2) by (subst takeWhile_append2) (auto simp: list_all_iff n)
  have d: "dropWhile isWordChar (w @ 125 # 125 # b) = 125 # 125 # b"
    using assms(2) by (subst dropWhile_append2) (auto simp: list_all_iff n)
  show ?thesis
    using assms(1) by (simp add: tokenRest_def Let_def placeholder_def startsWith_def str_def t d)
qed

lemma tokenRest_None_append:
  assumes "tokenRest s = None" "s \<noteq> []"
  shows "tokenRest (s @ 123 # 123 # x) = None"
proof (cases "startsWith s (str ''{{'')")
  case True
  then obtain s' where s: "s = 123 # 123 # s'"
    by (cases s; cases "tl s") (auto simp: startsWith_def str_def)
  have n: "\<not> isWordChar 123" by (simp add: isWordChar_def)
  show ?thesis
  proof (cases "dropWhile isWordChar s'")
    case Nil
    then have a: "\<forall>c \<in> set s'. isWordChar c" by (simp add: dropWhile_eq_Nil_conv)
    then have t: "takeWhile isWordChar (s' @ 123 # 123 # x) = s'"
      by (subst takeWhile_append2) (auto simp: n)
    from a have d: "dropWhile isWordChar (s' @ 123 # 123 # x) = 123 # 123 # x"
      by (subst dropWhile_append2) (auto simp: n)
    show ?thesis
      by (simp add: tokenRest_def Let_def s startsWith_def str_def t d)
  next
    case (Cons y ys)
    then have ny: "\<not> isWordChar y"
      using hd_dropWhile [of isWordChar s'] by simp
    have s': "s' = takeWhile isWordChar s' @ y # ys"
      using takeWhile_dropWhile_id [of isWordChar s'] Cons by simp
    have t: "takeWhile isWordChar (s' @ 123 # 123 # x) = takeWhile isWordChar s'"
      by (subst s', simp only: append_assoc, subst takeWhile_append2)
         (auto dest: set_takeWhileD simp: ny)
    have d: "dropWhile isWordChar (s' @ 123 # 123 # x) = y # ys @ 123 # 123 # x"
      by (subst s', simp only: append_assoc, subst dropWhile_append2)
         (auto dest: set_takeWhileD simp: ny)
    from assms(1) have "takeWhile isWordChar s' = [] \<or> \<not> startsWith (y # ys) (str ''}}'')"
      by (simp add: tokenRest_def Let_def s startsWith_def str_def Cons split: if_splits)
    then show ?thesis
      by (cases ys) (auto simp: tokenRest_def Let_def s startsWith_def str_def t d)
  qed
next
  case False
  show ?thesis
  proof (cases s)
    case Nil
    with assms(2) show ?thesis by simp
  next
    case (Cons c cs)
    have n: "\<not> isWordChar 123" by (simp add: isWordChar_def)
    show ?thesis
    proof (cases cs)
      case Nil
      then show ?thesis
        using Cons n by (simp add: tokenRest_def Let_def startsWith_def str_def)
    next
      case (Cons d ds)
      with False \<open>s = c # cs\<close> show ?thesis
        by (simp add: tokenRest_def Let_def startsWith_def str_def)
    qed
  qed
qed

lemma removeTokens_token:
  assumes "w \<noteq> []" "list_all isWordChar w"
  shows "removeTokens (a @ placeholder w @ b) = removeTokens a @ removeTokens b"
proof (induction a rule: removeTokens.induct)
  case 1
  have "placeholder w @ b \<noteq> []" by (simp add: placeholder_def str_def)
  then obtain c cs where p: "placeholder w @ b = c # cs" by (cases "placeholder w @ b") auto
  have "removeTokens (c # cs) = removeTokens b"
    using tokenRest_token [OF assms, of b] by (simp add: p)
  then show ?case by (simp add: p)
next
  case (2 c cs)
  have ph: "placeholder w @ b = 123 # 123 # (w @ 125 # 125 # b)"
    by (simp add: placeholder_def str_def)
  show ?case
  proof (cases "tokenRest (c # cs)")
    case None
    then have "tokenRest ((c # cs) @ placeholder w @ b) = None"
      unfolding ph by (rule tokenRest_None_append) simp
    then show ?thesis
      using None 2 by simp
  next
    case (Some r)
    then have "tokenRest ((c # cs) @ placeholder w @ b) = Some (r @ placeholder w @ b)"
      by (rule tokenRest_append)
    then show ?thesis
      using Some 2 by simp
  qed
qed

lemma trim_ends:
  "trim s = [] \<or> (\<not> isWhiteSpace (hd (trim s)) \<and> \<not> isWhiteSpace (last (trim s)))"
proof (cases "trim s = []")
  case True
  then show ?thesis by simp
next
  case False
  let ?u = "dropWhile isWhiteSpace s"
  let ?v = "dropWhile isWhiteSpace (rev ?u)"
  from False have v: "?v \<noteq> []" by (simp add: trim_def)
  have u: "?u \<noteq> []"
  proof
    assume e: "?u = []"
    have "?v = []" by (simp only: e rev.simps dropWhile.simps)
    with v show False by blast
  qed
  have "\<not> isWhiteSpace (hd ?v)" using v hd_dropWhile by blast
  then have l: "\<not> isWhiteSpace (last (trim s))"
    using v by (simp add: trim_def last_rev)
  have "last ?v = last (rev ?u)" using v by (rule last_dropWhile)
  also have "\<dots> = hd ?u" using u by (simp add: last_rev)
  finally have "hd (trim s) = hd ?u" using v by (simp add: trim_def hd_rev)
  moreover have "\<not> isWhiteSpace (hd ?u)" using u hd_dropWhile by blast
  ultimately show ?thesis using l by simp
qed

subsection \<open>Failures while substituting\<close>

lemma wordKeys_entries: "wordKeys (entries m)"
  by (simp add: wordKeys_def entries_def str_def isWordChar_def)

lemma replaceVariableSyntax_Inr: "\<exists>r. replaceVariableSyntax pf movieShow text = Inr r"
  by (cases movieShow; cases "matchFrontmatter text")
     (auto simp: replaceVariableSyntax_def tryCatch_def bindResult_def objectEntries_def)

lemma substituteEntry_failed:
  assumes "encode (if val = Undefined then Str [] else val) = Inl error"
  shows "substituteEntry encode result (key, val) = result"
  using assms by (simp add: substituteEntry_def tryCatch_def bindResult_def)

lemma foldl_substituteEntry_failed:
  assumes "encode (if val = Undefined then Str [] else val) = Inl error"
  shows "foldl (substituteEntry encode) result (es1 @ (key, val) # es2)
           = foldl (substituteEntry encode) result (es1 @ es2)"
  using assms by (simp add: substituteEntry_def tryCatch_def bindResult_def)

lemma replaceVariableSyntax_no_record:
  "trim text \<noteq> [] \<Longrightarrow> replaceVariableSyntax pf None text = Inr text"
  by (cases "matchFrontmatter text")
     (auto simp: replaceVariableSyntax_def tryCatch_def bindResult_def objectEntries_def)

text \<open>
  C5. \<^verbatim>\<open>replaceVariableSyntax\<close> returns a string and raises nothing, whatever the
  record and the template. When the encoding of the value of one entry throws, the step
  for that entry leaves the text as it is, so its placeholder stays, and the result of
  the whole reduction is the one without that entry: the other entries are substituted
  still. A placeholder that stays is a token that the last pass deletes. When the entries
  of the record cannot be read, the template is returned as it is.
\<close>

theorem replaceVariableSyntax_never_raises:
  "((case movieShow of None \<Rightarrow> True | Some es \<Rightarrow> wordKeys es)
      \<longrightarrow> (\<exists>r. replaceVariableSyntax pf movieShow text = Inr r))
   \<and> (encode (if val = Undefined then Str [] else val) = Inl error
        \<longrightarrow> substituteEntry encode result (key, val) = result
          \<and> foldl (substituteEntry encode) result (es1 @ (key, val) # es2)
              = foldl (substituteEntry encode) result (es1 @ es2))
   \<and> (key \<noteq> [] \<and> list_all isWordChar key
        \<longrightarrow> removeTokens (a @ placeholder key @ b) = removeTokens a @ removeTokens b)
   \<and> (trim text \<noteq> [] \<longrightarrow> replaceVariableSyntax pf None text = Inr text)"
  using replaceVariableSyntax_Inr [of pf movieShow "text"]
    substituteEntry_failed [of encode val error result key]
    foldl_substituteEntry_failed [of encode val error result es1 key es2]
    removeTokens_token [of key a b]
    replaceVariableSyntax_no_record [of "text" pf]
  by blast

lemma example_throwing:
  "wordKeys throwingRecord
   \<and> plainText examplePlatform (Arr [Opaque (Inl TypeError)]) = Inl TypeError
   \<and> replaceVariableSyntax examplePlatform (Some throwingRecord) (str ''{{name}} ({{year}})'')
       = Inr (str ''(2010)'')
   \<and> trim (str ''{{name}} ({{year}})'') \<noteq> []"
  by code_simp

theorem replaceVariableSyntax_never_raises_witness:
  "plainText examplePlatform (Arr [Opaque (Inl TypeError)]) = Inl TypeError
   \<and> substituteEntry (plainText examplePlatform) (str ''{{name}} ({{year}})'')
        (str ''name'', Arr [Opaque (Inl TypeError)]) = str ''{{name}} ({{year}})''
   \<and> replaceVariableSyntax examplePlatform (Some throwingRecord) (str ''{{name}} ({{year}})'')
       = Inr (str ''(2010)'')
   \<and> replaceVariableSyntax examplePlatform None (str ''{{name}} ({{year}})'')
       = Inr (str ''{{name}} ({{year}})'')"
proof -
  have v: "(if Arr [Opaque (Inl TypeError)] = Undefined then Str [] else Arr [Opaque (Inl TypeError)])
      = Arr [Opaque (Inl TypeError)]"
    by simp
  show ?thesis
    using example_throwing v
      replaceVariableSyntax_never_raises [of None examplePlatform "str ''{{name}} ({{year}})''"
        "plainText examplePlatform" "Arr [Opaque (Inl TypeError)]" TypeError
        "str ''{{name}} ({{year}})''" "str ''name''" "[]" "[]" "[]" "[]"]
      replaceVariableSyntax_never_raises [of "Some throwingRecord" examplePlatform
        "str ''{{name}} ({{year}})''"
        "plainText examplePlatform" "Arr [Opaque (Inl TypeError)]" TypeError
        "str ''{{name}} ({{year}})''" "str ''name''" "[]" "[]" "[]" "[]"]
    by simp
qed

subsection \<open>Stray tokens of a rendered text\<close>

text \<open>
  C6, as the code has it. The last pass deletes every token of the text in which the
  known fields have been substituted: a text with a token in it loses that token, and
  what is before and after the token is treated on its own, so text that becomes a token
  only because a token inside it was deleted stays. The result is trimmed: it is empty
  or begins and ends with a character that is not white space. The property names of a
  normalized record are made of word characters.
\<close>

theorem stray_tokens_removed:
  "(key \<noteq> [] \<and> list_all isWordChar key
      \<longrightarrow> removeTokens (a @ placeholder key @ b) = removeTokens a @ removeTokens b)
   \<and> wordKeys (entries m)
   \<and> (wordKeys es \<and> trim text \<noteq> [] \<and> matchFrontmatter text = None
      \<longrightarrow> replaceVariableSyntax pf (Some es) text
          = Inr (trim (removeTokens (foldl (substituteEntry (plainText pf)) text es))))
   \<and> (wordKeys es \<and> trim text \<noteq> [] \<and> matchFrontmatter text = Some (frontmatter, body)
      \<longrightarrow> replaceVariableSyntax pf (Some es) text
          = Inr (trim (removeTokens
              (str ''---'' @ [10] @ foldl (substituteEntry (quotedText pf)) frontmatter es
                 @ [10] @ str ''---'' @ [10] @ foldl (substituteEntry (plainText pf)) body es))))
   \<and> (wordKeys es \<and> replaceVariableSyntax pf (Some es) text = Inr r
      \<longrightarrow> r = [] \<or> (\<not> isWhiteSpace (hd r) \<and> \<not> isWhiteSpace (last r)))"
proof -
  have 1: "removeTokens (a @ placeholder key @ b) = removeTokens a @ removeTokens b"
    if "key \<noteq> [] \<and> list_all isWordChar key"
    using that removeTokens_token by blast
  have 2: "replaceVariableSyntax pf (Some es) text
          = Inr (trim (removeTokens (foldl (substituteEntry (plainText pf)) text es)))"
    if "trim text \<noteq> [] \<and> matchFrontmatter text = None"
    using that
    by (simp add: replaceVariableSyntax_def tryCatch_def bindResult_def objectEntries_def)
  have 3: "replaceVariableSyntax pf (Some es) text
          = Inr (trim (removeTokens
              (str ''---'' @ [10] @ foldl (substituteEntry (quotedText pf)) frontmatter es
                 @ [10] @ str ''---'' @ [10] @ foldl (substituteEntry (plainText pf)) body es)))"
    if "trim text \<noteq> [] \<and> matchFrontmatter text = Some (frontmatter, body)"
    using that
    by (simp add: replaceVariableSyntax_def tryCatch_def bindResult_def objectEntries_def)
  have 4: "r = [] \<or> (\<not> isWhiteSpace (hd r) \<and> \<not> isWhiteSpace (last r))"
    if "replaceVariableSyntax pf (Some es) text = Inr r"
  proof (cases "trim text = []")
    case True
    with that show ?thesis by (simp add: replaceVariableSyntax_def)
  next
    case False
    show ?thesis
    proof (cases "matchFrontmatter text")
      case None
      with 2 False that trim_ends show ?thesis by auto
    next
      case (Some p)
      then obtain f b' where "matchFrontmatter text = Some (f, b')" by (cases p) auto
      with False that trim_ends show ?thesis
        by (auto simp: replaceVariableSyntax_def tryCatch_def bindResult_def objectEntries_def)
    qed
  qed
  from 1 2 3 4 wordKeys_entries [of m] show ?thesis by blast
qed

lemma example_stray:
  "wordKeys (entries exampleShow)
   \<and> trim (str ''Hello {{nonexistentField}}!  '') \<noteq> []
   \<and> matchFrontmatter (str ''Hello {{nonexistentField}}!  '') = None
   \<and> trim (removeTokens (foldl (substituteEntry (plainText examplePlatform))
        (str ''Hello {{nonexistentField}}!  '') (entries exampleShow))) = str ''Hello !''"
  by code_simp

theorem stray_tokens_removed_witness:
  "replaceVariableSyntax examplePlatform (Some (entries exampleShow))
      (str ''Hello {{nonexistentField}}!  '') = Inr (str ''Hello !'')"
  using example_stray
    stray_tokens_removed [of "[]" "[]" "[]" exampleShow "entries exampleShow"
      "str ''Hello {{nonexistentField}}!  ''" examplePlatform "[]" "[]" "[]"]
  by simp

text \<open>
  The claim as written fails on a template that has the token inside other braces: the
  token is deleted, and what is left is the same token, which stays in the output.
\<close>

theorem stray_tokens_removed_counterexample:
  "replaceVariableSyntax examplePlatform (Some (entries exampleShow))
      (str ''{{nonexistent{{nonexistentField}}Field}}'') = Inr (str ''{{nonexistentField}}'')"
  by code_simp

subsection \<open>Header and body encodings\<close>










subsection \<open>File names\<close>




lemma baseNameOf_Inr: "\<exists>baseName. baseNameOf pf app movieShow fileNameFormat = Inr baseName"
  using replaceVariableSyntax_Inr
  by (cases fileNameFormat) (auto simp: baseNameOf_def)





end
